theory Spec2Isabelle
  imports Complex_Main
begin

section \<open>Gesture detection core of the face control module\<close>

text \<open>
  The embedding follows the face control module with noise-adaptive thresholds,
  synchronised blinks, winks and the rearm gate (\<^verbatim>\<open>src/unnamed/part_005\<close>), and the
  helper \<^verbatim>\<open>movingAverage\<close> of \<^verbatim>\<open>src/src/utils.js\<close>.

  Conventions of the model:
  \<^item> \<^verbatim>\<open>Date.now()\<close> is an \<open>int\<close> (milliseconds); \<^verbatim>\<open>performance.now()\<close> and all
    signal values are \<open>real\<close>: IEEE rounding is not modelled, and a frame carries the
    three finite signals that \<^verbatim>\<open>calculateSeparateEAR\<close> and \<^verbatim>\<open>calculateYaw\<close> extract
    from the landmarks. Division by zero, where JavaScript yields \<^verbatim>\<open>Infinity\<close> or
    \<^verbatim>\<open>NaN\<close>, is modelled separately for \<^verbatim>\<open>eyeAspectRatio\<close>. The sensitivity of
    a configuration is a finite number other than 0 (the settings page offers 0.5 to
    2.0), so that dividing by it is ordinary division.
  \<^item> The module-level variables form the record \<open>engine\<close>; every function takes the
    engine and returns the updated one. A thrown exception is a value \<open>Inl e\<close>; the
    assignments made before the throw stay in the returned engine, as they do in the
    module.
  \<^item> The callbacks \<^verbatim>\<open>onNext\<close>/\<^verbatim>\<open>onPrev\<close> are the emitted navigation event; the debug
    display is a write-only side channel and is left out.
\<close>

subsection \<open>Data\<close>

datatype gesture = wink_left | wink_right | double_blink | long_blink | head_left | head_right

datatype nav = Next | Prev

datatype winkstate = none | left_winking | right_winking

datatype headstate = center | left | right | triggered_left | triggered_right

datatype error = ReferenceError

record blink =
  b_start :: int
  b_end :: "int option"

record config =
  sensitivity :: real
  cooldownMs :: int
  triggerNext :: gesture
  triggerPrev :: gesture

record baseline_t =
  baseline_leftEar :: real
  baseline_rightEar :: real
  baseline_yaw :: real

record noise_t =
  noise_leftEar :: real
  noise_rightEar :: real
  noise_diff :: real
  noise_yaw :: real

record engine =
  faceLandmarker :: bool
  videoElement :: bool
  stream :: bool
  animationId :: "nat option"
  isRunning :: bool
  isPaused :: bool
  lastTriggerTime :: int
  blinkHistory :: "blink list"
  leftEarHistory :: "real list"
  rightEarHistory :: "real list"
  yawHistory :: "real list"
  leftClosedSince :: "int option"
  rightClosedSince :: "int option"
  blinkState :: "blink option"
  openFrames :: nat
  rearmReady :: bool
  lastFrameTime :: real
  winkState :: winkstate
  winkStartTime :: int
  lastWinkTrigger :: int
  headTurnState :: headstate
  lastHeadTurnTrigger :: int
  baseline :: baseline_t
  noise :: noise_t

text \<open>The values the module-level variables are initialised with.\<close>

definition initialEngine :: engine where
  "initialEngine =
     \<lparr> faceLandmarker = False, videoElement = False, stream = False,
       animationId = None, isRunning = False, isPaused = False,
       lastTriggerTime = 0, blinkHistory = [], leftEarHistory = [],
       rightEarHistory = [], yawHistory = [],
       leftClosedSince = None, rightClosedSince = None, blinkState = None,
       openFrames = 0, rearmReady = True, lastFrameTime = 0,
       winkState = none, winkStartTime = 0, lastWinkTrigger = 0,
       headTurnState = center, lastHeadTurnTrigger = 0,
       baseline = \<lparr> baseline_leftEar = 0.25, baseline_rightEar = 0.25, baseline_yaw = 0 \<rparr>,
       noise = \<lparr> noise_leftEar = 0.02, noise_rightEar = 0.02, noise_diff = 0.02,
                 noise_yaw = 0.5 \<rparr> \<rparr>"

definition defaultConfig :: config where
  "defaultConfig =
     \<lparr> sensitivity = 1.0, cooldownMs = 900, triggerNext = double_blink,
       triggerPrev = long_blink \<rparr>"

subsection \<open>\<^verbatim>\<open>BASE_THRESHOLDS\<close>\<close>

definition minEarDrop :: real where "minEarDrop = 0.12"
definition minOpenDrop :: real where "minOpenDrop = 0.06"
definition noiseMultClose :: real where "noiseMultClose = 6"
definition noiseMultOpen :: real where "noiseMultOpen = 3"
definition diffMin :: real where "diffMin = 0.04"
definition diffNoiseMult :: real where "diffNoiseMult = 3"
definition blinkMinMs :: int where "blinkMinMs = 60"
definition blinkMaxMs :: int where "blinkMaxMs = 350"
definition longBlinkMs :: int where "longBlinkMs = 420"
definition longBlinkMaxMs :: int where "longBlinkMaxMs = 900"
definition doubleBlinkWindowMs :: int where "doubleBlinkWindowMs = 700"
definition blinkSyncMs :: int where "blinkSyncMs = 80"
definition winkMinMs :: int where "winkMinMs = 60"
definition winkMaxMs :: int where "winkMaxMs = 500"
definition winkCooldownMs :: int where "winkCooldownMs = 300"
definition headTurnDeg :: real where "headTurnDeg = 5"
definition headReturnDeg :: real where "headReturnDeg = 3"
definition baselineEma :: real where "baselineEma = 0.01"
definition rearmOpenFrames :: nat where "rearmOpenFrames = 3"
definition targetFps :: real where "targetFps = 30"

subsection \<open>Numeric helpers\<close>

text \<open>\<^verbatim>\<open>values.reduce((a, b) => a + b, 0) / values.length\<close>, 0 on the empty array.\<close>

definition mean :: "real list \<Rightarrow> real" where
  "mean values =
     (if length values = 0 then 0
      else foldl (\<lambda>a b. a + b) 0 values / real (length values))"

definition stddev :: "real list \<Rightarrow> real" where
  "stddev values =
     (if length values < 2 then 0
      else let avg = mean values;
               variance = foldl (\<lambda>acc v. acc + (v - avg)\<^sup>2) 0 values
                            / (real (length values) - 1)
           in sqrt variance)"

definition median :: "real list \<Rightarrow> real" where
  "median values =
     (if length values = 0 then 0
      else let sorted = sort values;
               mid = length sorted div 2
           in if length sorted mod 2 = 0
              then (sorted ! (mid - 1) + sorted ! mid) / 2
              else sorted ! mid)"

text \<open>
  \<^verbatim>\<open>values.slice(-windowSize)\<close> keeps the last \<open>windowSize\<close> elements, and the whole
  array when \<open>windowSize\<close> is 0 (\<^verbatim>\<open>slice(-0)\<close> is \<^verbatim>\<open>slice(0)\<close>).
\<close>

definition slice_last :: "nat \<Rightarrow> 'a list \<Rightarrow> 'a list" where
  "slice_last windowSize values =
     (if windowSize = 0 then values else drop (length values - windowSize) values)"

definition movingAverage :: "real list \<Rightarrow> nat \<Rightarrow> real" where
  "movingAverage values windowSize =
     (if length values = 0 then 0
      else let window = slice_last windowSize values
           in foldl (\<lambda>a b. a + b) 0 window / real (length window))"

subsection \<open>One video frame\<close>

text \<open>
  What one call of \<^verbatim>\<open>processFrame\<close> reads from its environment: the clock
  \<^verbatim>\<open>performance.now()\<close>, the detection result (no face, or the left EAR, the right
  EAR and the yaw of the first face), and \<^verbatim>\<open>Date.now()\<close>.
\<close>

record frame =
  perfNow :: real
  face :: "(real \<times> real \<times> real) option"
  dateNow :: int

datatype outcome = RateLimited | NoFace | Completed "(nav \<times> gesture) option"

text \<open>The locals \<^verbatim>\<open>leftClosed\<close>, \<^verbatim>\<open>rightClosed\<close>, \<^verbatim>\<open>leftOpen\<close>, \<^verbatim>\<open>rightOpen\<close>.\<close>

record eyes =
  leftClosed :: bool
  rightClosed :: bool
  leftOpen :: bool
  rightOpen :: bool

text \<open>Push the new readings and drop the oldest one of a history that got too long.\<close>

definition pushHistories :: "real \<Rightarrow> real \<Rightarrow> real \<Rightarrow> engine \<Rightarrow> engine" where
  "pushHistories leftEar rightEar yaw s =
     (let l = leftEarHistory s @ [leftEar];
          r = rightEarHistory s @ [rightEar];
          y = yawHistory s @ [yaw]
      in s\<lparr> leftEarHistory := (if length l > 7 then tl l else l),
            rightEarHistory := (if length r > 7 then tl r else r),
            yawHistory := (if length y > 5 then tl y else y) \<rparr>)"

definition classifyEyes :: "config \<Rightarrow> engine \<Rightarrow> real \<Rightarrow> real \<Rightarrow> eyes" where
  "classifyEyes cfg s smoothLeftEar smoothRightEar =
     (let leftCloseDrop = max minEarDrop (noise_leftEar (noise s) * noiseMultClose) / sensitivity cfg;
          rightCloseDrop = max minEarDrop (noise_rightEar (noise s) * noiseMultClose) / sensitivity cfg;
          leftOpenDrop = max minOpenDrop (noise_leftEar (noise s) * noiseMultOpen) / sensitivity cfg;
          rightOpenDrop = max minOpenDrop (noise_rightEar (noise s) * noiseMultOpen) / sensitivity cfg;
          leftCloseThreshold = baseline_leftEar (baseline s) - leftCloseDrop;
          rightCloseThreshold = baseline_rightEar (baseline s) - rightCloseDrop;
          leftOpenThreshold = baseline_leftEar (baseline s) - leftOpenDrop;
          rightOpenThreshold = baseline_rightEar (baseline s) - rightOpenDrop
      in \<lparr> leftClosed = smoothLeftEar < leftCloseThreshold,
           rightClosed = smoothRightEar < rightCloseThreshold,
           leftOpen = smoothLeftEar > leftOpenThreshold,
           rightOpen = smoothRightEar > rightOpenThreshold \<rparr>)"

text \<open>
  The four statements that maintain \<^verbatim>\<open>leftClosedSince\<close> and \<^verbatim>\<open>rightClosedSince\<close>.
  They read \<^verbatim>\<open>now\<close>, which the function declares with \<^verbatim>\<open>const\<close> only further down:
  the read is in the temporal dead zone of the binding and throws a
  \<^verbatim>\<open>ReferenceError\<close>. The read happens only when the assignment is executed, that is
  when the eye is closed and its timestamp is still \<^verbatim>\<open>null\<close>.
\<close>

definition updateClosedSince :: "eyes \<Rightarrow> engine \<Rightarrow> error option \<times> engine" where
  "updateClosedSince e s =
     (if leftClosed e \<and> leftClosedSince s = None then (Some ReferenceError, s)
      else let s1 = (if \<not> leftClosed e then s\<lparr> leftClosedSince := None \<rparr> else s)
           in if rightClosed e \<and> rightClosedSince s1 = None then (Some ReferenceError, s1)
              else (None, if \<not> rightClosed e then s1\<lparr> rightClosedSince := None \<rparr> else s1))"

definition bothClosed :: "eyes \<Rightarrow> engine \<Rightarrow> bool" where
  "bothClosed e s =
     (leftClosed e \<and> rightClosed e \<and>
      (case (leftClosedSince s, rightClosedSince s) of
         (Some l, Some r) \<Rightarrow> \<bar>l - r\<bar> \<le> blinkSyncMs
       | _ \<Rightarrow> False))"

definition winkDiffThreshold :: "config \<Rightarrow> engine \<Rightarrow> real" where
  "winkDiffThreshold cfg s =
     max diffMin (noise_diff (noise s) * diffNoiseMult) / sensitivity cfg"

text \<open>The wink state machine; the first component is the local \<^verbatim>\<open>winkTriggered\<close>.\<close>

definition winkMachine ::
  "bool \<Rightarrow> bool \<Rightarrow> bool \<Rightarrow> int \<Rightarrow> engine \<Rightarrow> gesture option \<times> engine" where
  "winkMachine isLeftWink isRightWink bothClosed' now s =
     (let winkCooldown = now - lastWinkTrigger s < winkCooldownMs
      in if \<not> winkCooldown then
           if isLeftWink \<and> winkState s \<noteq> left_winking \<and> \<not> bothClosed'
           then (None, s\<lparr> winkState := left_winking, winkStartTime := now \<rparr>)
           else if isRightWink \<and> winkState s \<noteq> right_winking \<and> \<not> bothClosed'
           then (None, s\<lparr> winkState := right_winking, winkStartTime := now \<rparr>)
           else if (\<not> isLeftWink \<and> \<not> isRightWink) \<and> winkState s \<noteq> none
           then let winkDuration = now - winkStartTime s;
                    winkTriggered =
                      (if winkDuration \<ge> winkMinMs \<and> winkDuration \<le> winkMaxMs
                       then (if winkState s = left_winking then Some wink_left
                             else if winkState s = right_winking then Some wink_right
                             else None)
                       else None)
                in (winkTriggered, s\<lparr> winkState := none \<rparr>)
           else (None, s)
         else (None, s))"

text \<open>Blink interval tracking, then the pruning of blinks older than three seconds.\<close>

definition blinkDetect :: "bool \<Rightarrow> int \<Rightarrow> engine \<Rightarrow> engine" where
  "blinkDetect bothClosed' now s =
     (let s1 = (if bothClosed' then
                  (if blinkState s = None
                   then s\<lparr> blinkState := Some \<lparr> b_start = now, b_end = None \<rparr> \<rparr>
                   else s)
                else (case blinkState s of
                        None \<Rightarrow> s
                      | Some b \<Rightarrow>
                          if b_end b = None
                          then s\<lparr> blinkHistory := blinkHistory s @ [b\<lparr> b_end := Some now \<rparr>],
                                  blinkState := None \<rparr>
                          else s))
      in s1\<lparr> blinkHistory := filter (\<lambda>b. now - b_start b < 3000) (blinkHistory s1) \<rparr>)"

definition yawDelta :: "real \<Rightarrow> engine \<Rightarrow> real" where
  "yawDelta smoothYaw s = smoothYaw - baseline_yaw (baseline s)"

definition headTurnThreshold :: "config \<Rightarrow> real" where
  "headTurnThreshold cfg = headTurnDeg / sensitivity cfg"

definition headMachine :: "config \<Rightarrow> real \<Rightarrow> engine \<Rightarrow> engine" where
  "headMachine cfg smoothYaw s =
     (let absYaw = \<bar>yawDelta smoothYaw s\<bar>
      in if absYaw < headReturnDeg then s\<lparr> headTurnState := center \<rparr>
         else if yawDelta smoothYaw s > headTurnThreshold cfg
         then (if headTurnState s = center then s\<lparr> headTurnState := right \<rparr> else s)
         else if yawDelta smoothYaw s < - headTurnThreshold cfg
         then (if headTurnState s = center then s\<lparr> headTurnState := left \<rparr> else s)
         else s)"

text \<open>
  The locals that the trigger logic reads: the eye classification, the smoothed
  signals, \<^verbatim>\<open>now\<close>, \<^verbatim>\<open>inCooldown\<close> and \<^verbatim>\<open>winkTriggered\<close>.
\<close>

record locals =
  ctx_eyes :: eyes
  smoothLeftEar :: real
  smoothRightEar :: real
  smoothYaw :: real
  now :: int
  inCooldown :: bool
  winkTriggered :: "gesture option"

text \<open>
  The first part of \<^verbatim>\<open>processFrame\<close>, up to and including the head turn state
  machine. It ends the call early (rate limit, no face), throws, or hands the locals
  on to the trigger logic.
\<close>

definition signalStage ::
  "config \<Rightarrow> frame \<Rightarrow> engine \<Rightarrow> ((error + outcome) + locals) \<times> engine" where
  "signalStage cfg f s =
     (let startTime = perfNow f
      in if startTime - lastFrameTime s < 1000 / targetFps then (Inl (Inr RateLimited), s)
         else
           let s0 = s\<lparr> lastFrameTime := startTime \<rparr>
           in case face f of
                None \<Rightarrow> (Inl (Inr NoFace), s0)
              | Some (leftEar, rightEar, yaw) \<Rightarrow>
                  let s1 = pushHistories leftEar rightEar yaw s0;
                      sl = median (leftEarHistory s1);
                      sr = median (rightEarHistory s1);
                      sy = movingAverage (yawHistory s1) 3;
                      e = classifyEyes cfg s1 sl sr;
                      earDifference = abs (sl - sr)
                  in (case updateClosedSince e s1 of
                       (Some err, s2) \<Rightarrow> (Inl (Inl err), s2)
                     | (None, s2) \<Rightarrow>
                         let bc = bothClosed e s2;
                             isLeftWink = (rightClosed e \<and> leftOpen e
                                            \<and> earDifference > winkDiffThreshold cfg s2);
                             isRightWink = (leftClosed e \<and> rightOpen e
                                             \<and> earDifference > winkDiffThreshold cfg s2);
                             t = dateNow f;
                             cd = (t - lastTriggerTime s2 < cooldownMs cfg)
                         in case winkMachine isLeftWink isRightWink bc t s2 of
                              (wt, s3) \<Rightarrow>
                                let s4 = blinkDetect bc t s3;
                                    s5 = headMachine cfg sy s4
                                in (Inr \<lparr> ctx_eyes = e, smoothLeftEar = sl,
                                           smoothRightEar = sr, smoothYaw = sy, now = t,
                                           inCooldown = cd, winkTriggered = wt \<rparr>, s5)))"

subsection \<open>Trigger logic\<close>

text \<open>
  \<^verbatim>\<open>if (config.triggerNext === g) triggered = 'next' else if (config.triggerPrev === g)
  triggered = 'prev'\<close>, with \<^verbatim>\<open>triggerReason = g\<close>; the pair is \<^verbatim>\<open>triggered\<close> and
  \<^verbatim>\<open>triggerReason\<close>, \<open>None\<close> is \<^verbatim>\<open>triggered === null\<close>.
\<close>

definition binding :: "config \<Rightarrow> gesture \<Rightarrow> (nav \<times> gesture) option" where
  "binding cfg g =
     (if triggerNext cfg = g then Some (Next, g)
      else if triggerPrev cfg = g then Some (Prev, g)
      else None)"

definition winkTrigger :: "config \<Rightarrow> locals \<Rightarrow> engine \<Rightarrow> (nav \<times> gesture) option \<times> engine" where
  "winkTrigger cfg ctx s =
     (if winkTriggered ctx \<noteq> None \<and> \<not> inCooldown ctx then
        let triggered =
              (if winkTriggered ctx = Some wink_left then binding cfg wink_left
               else if winkTriggered ctx = Some wink_right then binding cfg wink_right
               else None)
        in (triggered, if triggered \<noteq> None then s\<lparr> lastWinkTrigger := now ctx \<rparr> else s)
      else (None, s))"

definition completedBlinks :: "engine \<Rightarrow> blink list" where
  "completedBlinks s =
     filter (\<lambda>b. case b_end b of
                   None \<Rightarrow> False
                 | Some e \<Rightarrow> let dur = e - b_start b
                             in dur \<ge> blinkMinMs \<and> dur \<le> blinkMaxMs)
            (blinkHistory s)"

definition doubleBlinkTrigger :: "config \<Rightarrow> locals \<Rightarrow> engine \<Rightarrow> (nav \<times> gesture) option" where
  "doubleBlinkTrigger cfg ctx s =
     (let cb = completedBlinks s
      in if length cb \<ge> 2 then
           let lastTwo = slice_last 2 cb;
               blink1 = lastTwo ! 0;
               blink2 = lastTwo ! 1
           in case (b_end blink1, b_end blink2) of
                (Some end1, Some end2) \<Rightarrow>
                  let timeBetweenBlinks = b_start blink2 - end1
                  in if now ctx - end2 < 300 \<and> timeBetweenBlinks < doubleBlinkWindowMs
                        \<and> timeBetweenBlinks > 80
                     then binding cfg double_blink
                     else None
              | _ \<Rightarrow> None
         else None)"

definition longBlinks :: "locals \<Rightarrow> engine \<Rightarrow> blink list" where
  "longBlinks ctx s =
     filter (\<lambda>b. case b_end b of
                   None \<Rightarrow> False
                 | Some e \<Rightarrow> e - b_start b \<ge> longBlinkMs \<and> e - b_start b \<le> longBlinkMaxMs
                             \<and> now ctx - e < 300)
            (blinkHistory s)"

definition longBlinkTrigger :: "config \<Rightarrow> locals \<Rightarrow> engine \<Rightarrow> (nav \<times> gesture) option" where
  "longBlinkTrigger cfg ctx s =
     (if length (longBlinks ctx s) > 0 then binding cfg long_blink else None)"

definition headTurnTrigger ::
  "config \<Rightarrow> locals \<Rightarrow> engine \<Rightarrow> (nav \<times> gesture) option \<times> engine" where
  "headTurnTrigger cfg ctx s =
     (if headTurnState s = right \<and> now ctx - lastHeadTurnTrigger s > cooldownMs cfg then
        let triggered = binding cfg head_right
        in (triggered,
            if triggered \<noteq> None
            then s\<lparr> lastHeadTurnTrigger := now ctx, headTurnState := triggered_right \<rparr>
            else s)
      else if headTurnState s = left \<and> now ctx - lastHeadTurnTrigger s > cooldownMs cfg then
        let triggered = binding cfg head_left
        in (triggered,
            if triggered \<noteq> None
            then s\<lparr> lastHeadTurnTrigger := now ctx, headTurnState := triggered_left \<rparr>
            else s)
      else (None, s))"

text \<open>
  ``Detect triggers'': winks first; then, when not in cooldown, nothing triggered yet
  and the engine rearmed, double blink, long blink and head turn, each one only while
  \<^verbatim>\<open>triggered\<close> is still \<^verbatim>\<open>null\<close>.
\<close>

definition detectTriggers ::
  "config \<Rightarrow> locals \<Rightarrow> engine \<Rightarrow> (nav \<times> gesture) option \<times> engine" where
  "detectTriggers cfg ctx s =
     (let (triggered, s1) = winkTrigger cfg ctx s
      in if \<not> inCooldown ctx \<and> triggered = None \<and> rearmReady s1 then
           let triggered1 = doubleBlinkTrigger cfg ctx s1;
               triggered2 = (if triggered1 = None then longBlinkTrigger cfg ctx s1
                             else triggered1)
           in if triggered2 = None then headTurnTrigger cfg ctx s1 else (triggered2, s1)
         else (triggered, s1))"

definition executeTrigger :: "locals \<Rightarrow> (nav \<times> gesture) option \<Rightarrow> engine \<Rightarrow> engine" where
  "executeTrigger ctx triggered s =
     (if triggered \<noteq> None
      then s\<lparr> lastTriggerTime := now ctx, blinkHistory := [], rearmReady := False,
              openFrames := 0 \<rparr>
      else s)"

definition rearm :: "locals \<Rightarrow> engine \<Rightarrow> engine" where
  "rearm ctx s =
     (if \<not> rearmReady s then
        let s1 = (if leftOpen (ctx_eyes ctx) \<and> rightOpen (ctx_eyes ctx)
                  then s\<lparr> openFrames := openFrames s + 1 \<rparr>
                  else s\<lparr> openFrames := 0 \<rparr>)
        in if openFrames s1 \<ge> rearmOpenFrames then s1\<lparr> rearmReady := True \<rparr> else s1
      else s)"

definition adaptBaseline :: "locals \<Rightarrow> engine \<Rightarrow> engine" where
  "adaptBaseline ctx s =
     (if leftOpen (ctx_eyes ctx) \<and> rightOpen (ctx_eyes ctx) \<and> \<not> inCooldown ctx then
        s\<lparr> baseline :=
             \<lparr> baseline_leftEar = baseline_leftEar (baseline s) * (1 - baselineEma)
                                     + smoothLeftEar ctx * baselineEma,
               baseline_rightEar = baseline_rightEar (baseline s) * (1 - baselineEma)
                                     + smoothRightEar ctx * baselineEma,
               baseline_yaw = baseline_yaw (baseline s) * (1 - baselineEma)
                                     + smoothYaw ctx * baselineEma \<rparr> \<rparr>
      else s)"

definition processFrame :: "config \<Rightarrow> frame \<Rightarrow> engine \<Rightarrow> (error + outcome) \<times> engine" where
  "processFrame cfg f s =
     (case signalStage cfg f s of
        (Inl r, s1) \<Rightarrow> (r, s1)
      | (Inr ctx, s1) \<Rightarrow>
          let (triggered, s2) = detectTriggers cfg ctx s1
          in (Inr (Completed triggered),
              adaptBaseline ctx (rearm ctx (executeTrigger ctx triggered s2))))"

text \<open>
  The detection loop calls \<^verbatim>\<open>processFrame\<close> once per animation frame and does not
  await it: a call that throws leaves a rejected promise behind and the loop goes on
  with the next frame. \<open>run\<close> lists the triggers of a frame sequence, each with the
  \<^verbatim>\<open>Date.now()\<close> of its frame.
\<close>

fun run :: "config \<Rightarrow> frame list \<Rightarrow> engine \<Rightarrow> (int \<times> nav \<times> gesture) list" where
  "run cfg [] s = []"
| "run cfg (f # fs) s =
     (case processFrame cfg f s of
        (Inr (Completed (Some (n, g))), s') \<Rightarrow> (dateNow f, n, g) # run cfg fs s'
      | (_, s') \<Rightarrow> run cfg fs s')"

fun finalEngine :: "config \<Rightarrow> frame list \<Rightarrow> engine \<Rightarrow> engine" where
  "finalEngine cfg [] s = s"
| "finalEngine cfg (f # fs) s = finalEngine cfg fs (snd (processFrame cfg f s))"

subsection \<open>Calibration\<close>

text \<open>
  \<^verbatim>\<open>calibrateBaseline\<close> polls the face model until two seconds of wall-clock time have
  passed, pausing 50 ms after each detection. Its environment is the reading
  \<open>startTime\<close> of \<^verbatim>\<open>Date.now()\<close> before the loop, the reading \<open>clock k\<close> at the \<open>k\<close>-th
  test of the loop condition, and the result \<open>detect k\<close> of the \<open>k\<close>-th detection:
  \<open>None\<close> when no face was found, otherwise the left EAR, the right EAR and the yaw of
  the face. The accumulator holds \<^verbatim>\<open>leftEarSamples\<close>, \<^verbatim>\<open>rightEarSamples\<close>,
  \<^verbatim>\<open>yawSamples\<close> and \<^verbatim>\<open>diffSamples\<close>. The loop does not return when the clock never
  reaches the end of the window; the result is then \<open>None\<close>.
\<close>

type_synonym detection = "(real \<times> real \<times> real) option"

type_synonym samples = "real list \<times> real list \<times> real list \<times> real list"

fun addSample :: "detection \<Rightarrow> samples \<Rightarrow> samples" where
  "addSample None acc = acc"
| "addSample (Some (l, r, y)) (ls, rs, ys, ds) =
     (ls @ [l], rs @ [r], ys @ [y], ds @ [\<bar>l - r\<bar>])"

text \<open>\<^verbatim>\<open>results.faceLandmarks?.length > 0\<close>\<close>

definition faceFound :: "detection \<Rightarrow> bool" where
  "faceFound d = (case d of None \<Rightarrow> False | Some v \<Rightarrow> True)"

partial_function (option) calibrationLoop ::
  "int \<Rightarrow> (nat \<Rightarrow> int) \<Rightarrow> (nat \<Rightarrow> detection) \<Rightarrow> nat \<Rightarrow> samples \<Rightarrow> samples option" where
  "calibrationLoop startTime clock detect k acc =
     (if clock k - startTime < 2000
      then calibrationLoop startTime clock detect (Suc k) (addSample (detect k) acc)
      else Some acc)"

text \<open>``Set baselines'': the assignments after the loop.\<close>

definition setBaselines :: "samples \<Rightarrow> engine \<Rightarrow> engine" where
  "setBaselines smp s =
     (case smp of
        (leftEarSamples, rightEarSamples, yawSamples, diffSamples) \<Rightarrow>
          let s1 = (if length leftEarSamples > 0
                    then s\<lparr> baseline := (baseline s)\<lparr> baseline_leftEar := mean leftEarSamples,
                                                       baseline_rightEar := mean rightEarSamples \<rparr>,
                            noise := (noise s)\<lparr> noise_leftEar := max (stddev leftEarSamples) 0.005,
                                                 noise_rightEar := max (stddev rightEarSamples) 0.005 \<rparr> \<rparr>
                    else s);
              s2 = (if length yawSamples > 0
                    then s1\<lparr> baseline := (baseline s1)\<lparr> baseline_yaw := mean yawSamples \<rparr>,
                             noise := (noise s1)\<lparr> noise_yaw := max (stddev yawSamples) 0.1 \<rparr> \<rparr>
                    else s1)
          in if length diffSamples > 0
             then s2\<lparr> noise := (noise s2)\<lparr> noise_diff := max (stddev diffSamples) 0.005 \<rparr> \<rparr>
             else s2)"

definition calibrateBaseline ::
  "int \<Rightarrow> (nat \<Rightarrow> int) \<Rightarrow> (nat \<Rightarrow> detection) \<Rightarrow> engine \<Rightarrow> engine option" where
  "calibrateBaseline startTime clock detect s =
     map_option (\<lambda>smp. setBaselines smp s)
       (calibrationLoop startTime clock detect 0 ([], [], [], []))"

subsection \<open>Session start, detection loop and stop\<close>

text \<open>
  The successful path of \<^verbatim>\<open>initFaceControl\<close>: camera stream, video element and face
  model are in place, calibration has run, the loop is switched on.
\<close>

definition initFaceControl ::
  "int \<Rightarrow> (nat \<Rightarrow> int) \<Rightarrow> (nat \<Rightarrow> detection) \<Rightarrow> engine \<Rightarrow> engine option" where
  "initFaceControl startTime clock detect s =
     map_option (\<lambda>s'. s'\<lparr> isRunning := True \<rparr>)
       (calibrateBaseline startTime clock detect
          (s\<lparr> stream := True, videoElement := True, faceLandmarker := True \<rparr>))"

text \<open>
  One activation of \<^verbatim>\<open>detectLoop\<close>; \<open>rafId\<close> is the handle that
  \<^verbatim>\<open>requestAnimationFrame\<close> returns for the next activation. The result is \<open>None\<close>
  when the activation calls \<^verbatim>\<open>processFrame\<close> not at all.
\<close>

definition detectLoop ::
  "config \<Rightarrow> frame \<Rightarrow> nat \<Rightarrow> engine \<Rightarrow> (error + outcome) option \<times> engine" where
  "detectLoop cfg f rafId s =
     (if \<not> isRunning s \<or> \<not> faceLandmarker s \<or> \<not> videoElement s then (None, s)
      else if \<not> isPaused s
      then (case processFrame cfg f s of
              (r, s') \<Rightarrow> (Some r, s'\<lparr> animationId := Some rafId \<rparr>))
      else (None, s\<lparr> animationId := Some rafId \<rparr>))"

definition destroyFaceControl :: "engine \<Rightarrow> engine" where
  "destroyFaceControl s =
     s\<lparr> isRunning := False, isPaused := False,
        animationId := (case animationId s of
                          None \<Rightarrow> None
                        | Some n \<Rightarrow> if n \<noteq> 0 then None else Some n),
        stream := False, videoElement := False, faceLandmarker := False,
        blinkHistory := [], leftEarHistory := [], rightEarHistory := [], yawHistory := [],
        lastTriggerTime := 0, headTurnState := center, lastHeadTurnTrigger := 0,
        winkState := none, winkStartTime := 0, lastWinkTrigger := 0 \<rparr>"

subsection \<open>Eye aspect ratio\<close>

text \<open>
  A landmark has \<^verbatim>\<open>x\<close>, \<^verbatim>\<open>y\<close> and possibly \<^verbatim>\<open>z\<close>; \<^verbatim>\<open>(p.z || 0)\<close> reads a missing
  \<^verbatim>\<open>z\<close> as 0.
\<close>

record point =
  p_x :: real
  p_y :: real
  p_z :: "real option"

definition zOr0 :: "point \<Rightarrow> real" where
  "zOr0 p = (case p_z p of None \<Rightarrow> 0 | Some v \<Rightarrow> v)"

definition distance :: "point \<Rightarrow> point \<Rightarrow> real" where
  "distance a b = sqrt ((p_x b - p_x a)\<^sup>2 + (p_y b - p_y a)\<^sup>2 + (zOr0 b - zOr0 a)\<^sup>2)"

text \<open>
  The result of a JavaScript division of two finite numbers, the divisor not being
  negative zero: dividing by zero does not raise, it yields \<^verbatim>\<open>Infinity\<close>,
  \<^verbatim>\<open>-Infinity\<close> or \<^verbatim>\<open>NaN\<close>.
\<close>

datatype jsnum = Finite real | Infinity | NegInfinity | NaN

definition js_div :: "real \<Rightarrow> real \<Rightarrow> jsnum" where
  "js_div a b =
     (if b \<noteq> 0 then Finite (a / b)
      else if a > 0 then Infinity
      else if a < 0 then NegInfinity
      else NaN)"

record eye =
  p1 :: point
  p2 :: point
  p3 :: point
  p4 :: point
  p5 :: point
  p6 :: point

definition eyeAspectRatio :: "eye \<Rightarrow> jsnum" where
  "eyeAspectRatio e =
     (let verticalA = distance (p2 e) (p6 e);
          verticalB = distance (p3 e) (p5 e);
          horizontal = distance (p1 e) (p4 e)
      in js_div (verticalA + verticalB) (2 * horizontal))"

subsection \<open>Frame sequences\<close>

text \<open>
  \<open>outcomes\<close> lists what each call of a frame sequence did, \<open>yawDeltas\<close> the value of
  \<^verbatim>\<open>yawDelta\<close> on each frame that reached the head turn state machine.
\<close>

fun outcomes :: "config \<Rightarrow> frame list \<Rightarrow> engine \<Rightarrow> (error + outcome) list" where
  "outcomes cfg [] s = []"
| "outcomes cfg (f # fs) s =
     (case processFrame cfg f s of (r, s') \<Rightarrow> r # outcomes cfg fs s')"

fun yawDeltas :: "config \<Rightarrow> frame list \<Rightarrow> engine \<Rightarrow> real option list" where
  "yawDeltas cfg [] s = []"
| "yawDeltas cfg (f # fs) s =
     (case signalStage cfg f s of
        (Inr ctx, s1) \<Rightarrow> Some (yawDelta (smoothYaw ctx) s1)
      | (Inl r, s1) \<Rightarrow> None)
     # yawDeltas cfg fs (snd (processFrame cfg f s))"

text \<open>
  The head turn triggers of a run; whether the head turn state machine can still fire
  without passing through \<^verbatim>\<open>'center'\<close> again; whether a frame reaches the head turn
  state machine with the yaw delta inside the return-to-centre band, and the number of
  such frames in a sequence.
\<close>

definition isHeadTrigger :: "int \<times> nav \<times> gesture \<Rightarrow> bool" where
  "isHeadTrigger x = (snd (snd x) = head_left \<or> snd (snd x) = head_right)"

definition armed :: "engine \<Rightarrow> nat" where
  "armed s =
     (if headTurnState s = triggered_left \<or> headTurnState s = triggered_right then 0 else 1)"

definition sawCenter :: "config \<Rightarrow> frame \<Rightarrow> engine \<Rightarrow> bool" where
  "sawCenter cfg f s =
     (case signalStage cfg f s of
        (Inr ctx, s1) \<Rightarrow> \<bar>yawDelta (smoothYaw ctx) s1\<bar> < headReturnDeg
      | (Inl r, s1) \<Rightarrow> False)"

fun centerCount :: "config \<Rightarrow> frame list \<Rightarrow> engine \<Rightarrow> nat" where
  "centerCount cfg [] s = 0"
| "centerCount cfg (f # fs) s =
     (if sawCenter cfg f s then 1 else 0) + centerCount cfg fs (snd (processFrame cfg f s))"

text \<open>
  The engine has never recorded a closed eye: the state the module starts in, as far
  as eye closure is concerned.
\<close>

definition noClosureRecorded :: "engine \<Rightarrow> bool" where
  "noClosureRecorded s =
     (leftClosedSince s = None \<and> rightClosedSince s = None \<and> blinkState s = None
      \<and> blinkHistory s = [] \<and> winkState s = none)"

text \<open>
  A calibration window of three detections, 700 ms apart: a face at rest, no face, a
  face at rest; the calibrated session that results from it; and a configuration that
  binds the two head turns.
\<close>

definition sessionClock :: "nat \<Rightarrow> int" where
  "sessionClock k = 700 * int k"

definition sessionDetect :: "nat \<Rightarrow> detection" where
  "sessionDetect k = (if k = 1 then None else Some (0.3, 0.3, 0))"

definition calibrated :: engine where
  "calibrated =
     initialEngine\<lparr> stream := True, videoElement := True, faceLandmarker := True,
       isRunning := True,
       baseline := \<lparr> baseline_leftEar = 0.3, baseline_rightEar = 0.3, baseline_yaw = 0 \<rparr>,
       noise := \<lparr> noise_leftEar = 0.005, noise_rightEar = 0.005, noise_diff = 0.005,
                  noise_yaw = 0.1 \<rparr> \<rparr>"

definition headConfig :: config where
  "headConfig =
     \<lparr> sensitivity = 1.0, cooldownMs = 900, triggerNext = head_right,
       triggerPrev = head_left \<rparr>"

text \<open>A frame with both eyes open at the calibrated EAR and the given raw yaw.\<close>

definition openFrame :: "real \<Rightarrow> int \<Rightarrow> real \<Rightarrow> frame" where
  "openFrame p t y = \<lparr> perfNow = p, face = Some (0.3, 0.3, y), dateNow = t \<rparr>"

text \<open>
  A turn to the right, a return to the centre, and a second turn a second after the
  first.
\<close>

definition twoTurns :: "frame list" where
  "twoTurns =
     [openFrame 1000 5000 10, openFrame 1040 5040 0, openFrame 1080 5080 0,
      openFrame 1120 5120 0, openFrame 2000 6000 30]"

text \<open>
  The state after the first turn and the return to the centre, the frame of the second
  turn, and the locals and the state with which that frame reaches the trigger logic.
\<close>

definition firstTurn :: "frame list" where
  "firstTurn =
     [openFrame 1000 5000 10, openFrame 1040 5040 0, openFrame 1080 5080 0,
      openFrame 1120 5120 0]"

definition afterFirstTurn :: engine where
  "afterFirstTurn = finalEngine headConfig firstTurn calibrated"

definition turnLocals :: locals where
  "turnLocals =
     \<lparr> ctx_eyes = \<lparr> leftClosed = False, rightClosed = False, leftOpen = True,
                     rightOpen = True \<rparr>,
       smoothLeftEar = 0.3, smoothRightEar = 0.3, smoothYaw = 10, now = 6000,
       inCooldown = False, winkTriggered = None \<rparr>"

definition turnState :: engine where
  "turnState =
     calibrated\<lparr> lastTriggerTime := 5000,
       leftEarHistory := [0.3, 0.3, 0.3, 0.3, 0.3],
       rightEarHistory := [0.3, 0.3, 0.3, 0.3, 0.3],
       yawHistory := [10, 0, 0, 0, 30], openFrames := 3, lastFrameTime := 2000,
       headTurnState := right, lastHeadTurnTrigger := 5000,
       baseline := \<lparr> baseline_leftEar = 0.3, baseline_rightEar = 0.3,
                      baseline_yaw = 0.1 \<rparr> \<rparr>"

text \<open>
  A turn to the right, a return to the centre and a second turn to the right, all
  within 300 ms, then a frame after the cooldown.
\<close>

definition quickTurns :: "frame list" where
  "quickTurns =
     [openFrame 1000 5000 10, openFrame 1040 5040 0, openFrame 1080 5080 0,
      openFrame 1120 5120 0, openFrame 1160 5160 30, openFrame 1200 5200 0,
      openFrame 1240 5240 0, openFrame 1280 5280 0, openFrame 2000 6000 0]"

text \<open>A frame with the given left and right EAR and the head at rest.\<close>

definition eyesFrame :: "real \<Rightarrow> int \<Rightarrow> real \<Rightarrow> real \<Rightarrow> frame" where
  "eyesFrame p t l r = \<lparr> perfNow = p, face = Some (l, r, 0), dateNow = t \<rparr>"

text \<open>
  Two blinks, 40 ms between frames. Both eyes read 0.1 on frames 1 to 3 and 8 to 11
  and 0.3 otherwise. The 7-frame median of either eye is below the close threshold 0.18
  on frames 1 to 5 and 11 to 14: a first blink of 200 ms (5000 to 5200), a gap of
  200 ms, a second blink of 160 ms (5400 to 5560).
\<close>

definition twoBlinks :: "frame list" where
  "twoBlinks =
     [eyesFrame 1000 5000 0.1 0.1, eyesFrame 1040 5040 0.1 0.1, eyesFrame 1080 5080 0.1 0.1,
      eyesFrame 1120 5120 0.3 0.3, eyesFrame 1160 5160 0.3 0.3, eyesFrame 1200 5200 0.3 0.3,
      eyesFrame 1240 5240 0.3 0.3,
      eyesFrame 1280 5280 0.1 0.1, eyesFrame 1320 5320 0.1 0.1, eyesFrame 1360 5360 0.1 0.1,
      eyesFrame 1400 5400 0.1 0.1,
      eyesFrame 1440 5440 0.3 0.3, eyesFrame 1480 5480 0.3 0.3, eyesFrame 1520 5520 0.3 0.3,
      eyesFrame 1560 5560 0.3 0.3]"

text \<open>
  A wink: the right EAR reads 0.1 on frames 1 to 3 while the left EAR stays at 0.3; the
  median of the right EAR is below the close threshold on frames 1 to 5 (200 ms).
\<close>

definition winkConfig :: config where
  "winkConfig =
     \<lparr> sensitivity = 1.0, cooldownMs = 900, triggerNext = wink_left,
       triggerPrev = wink_right \<rparr>"

definition oneWink :: "frame list" where
  "oneWink =
     [eyesFrame 1000 5000 0.3 0.1, eyesFrame 1040 5040 0.3 0.1, eyesFrame 1080 5080 0.3 0.1,
      eyesFrame 1120 5120 0.3 0.3, eyesFrame 1160 5160 0.3 0.3, eyesFrame 1200 5200 0.3 0.3,
      eyesFrame 1240 5240 0.3 0.3]"




text \<open>
  A session that fired a head turn, and the state in which it is started again, with
  the same calibration input, after it was stopped.
\<close>

definition afterTrigger :: engine where
  "afterTrigger = snd (processFrame headConfig (openFrame 1000 5000 10) calibrated)"

definition restarted :: engine where
  "restarted = calibrated\<lparr> openFrames := 1, rearmReady := False, lastFrameTime := 1000 \<rparr>"

text \<open>An eye whose two corners coincide while the lids are apart.\<close>

definition degenerateEye :: eye where
  "degenerateEye =
     \<lparr> p1 = \<lparr> p_x = 0.4, p_y = 0.5, p_z = Some 0.01 \<rparr>,
       p2 = \<lparr> p_x = 0.4, p_y = 0.49, p_z = Some 0.01 \<rparr>,
       p3 = \<lparr> p_x = 0.4, p_y = 0.49, p_z = Some 0.01 \<rparr>,
       p4 = \<lparr> p_x = 0.4, p_y = 0.5, p_z = Some 0.01 \<rparr>,
       p5 = \<lparr> p_x = 0.4, p_y = 0.51, p_z = Some 0.01 \<rparr>,
       p6 = \<lparr> p_x = 0.4, p_y = 0.51, p_z = Some 0.01 \<rparr> \<rparr>"

text \<open>1 when the call emitted a head turn trigger, 0 otherwise.\<close>

fun headFired :: "(error + outcome) \<Rightarrow> nat" where
  "headFired (Inr (Completed (Some (n, g)))) = (if g = head_left \<or> g = head_right then 1 else 0)"
| "headFired r = 0"

section \<open>Properties\<close>

lemmas BASE_THRESHOLDS =
  minEarDrop_def minOpenDrop_def noiseMultClose_def noiseMultOpen_def diffMin_def
  diffNoiseMult_def blinkMinMs_def blinkMaxMs_def longBlinkMs_def longBlinkMaxMs_def
  doubleBlinkWindowMs_def blinkSyncMs_def winkMinMs_def winkMaxMs_def winkCooldownMs_def
  headTurnDeg_def headReturnDeg_def baselineEma_def rearmOpenFrames_def targetFps_def

lemmas engine_defs =
  processFrame_def signalStage_def pushHistories_def median_def movingAverage_def slice_last_def
  classifyEyes_def updateClosedSince_def bothClosed_def winkDiffThreshold_def winkMachine_def
  blinkDetect_def yawDelta_def headTurnThreshold_def headMachine_def binding_def winkTrigger_def
  completedBlinks_def doubleBlinkTrigger_def longBlinks_def longBlinkTrigger_def
  headTurnTrigger_def detectTriggers_def executeTrigger_def rearm_def adaptBaseline_def

lemmas scenario_defs =
  headConfig_def winkConfig_def defaultConfig_def openFrame_def eyesFrame_def initialEngine_def

subsection \<open>The calibrated session\<close>

lemma calibrationLoop_window:
  assumes "\<forall>j. k \<le> j \<and> j < n \<longrightarrow> clock j - startTime < 2000"
    and "2000 \<le> clock n - startTime" and "k \<le> n"
  shows "calibrationLoop startTime clock detect k acc
           = Some (fold addSample (map detect [k..<n]) acc)"
  using assms
proof (induction "n - k" arbitrary: k acc)
  case 0
  then have "k = n" by simp
  with "0.prems"(2) show ?case by (subst calibrationLoop.simps) simp
next
  case (Suc d)
  then have lt: "k < n" by simp
  with Suc.prems(1) have c: "clock k - startTime < 2000" by simp
  have "calibrationLoop startTime clock detect (Suc k) (addSample (detect k) acc)
          = Some (fold addSample (map detect [Suc k..<n]) (addSample (detect k) acc))"
    using Suc.hyps(2) Suc.prems lt by (intro Suc.hyps(1)) auto
  with c lt show ?case
    by (subst calibrationLoop.simps) (simp add: upt_conv_Cons)
qed

lemma sessionClock_window:
  "(\<forall>j. 0 \<le> j \<and> j < 3 \<longrightarrow> sessionClock j - 0 < 2000) \<and> 2000 \<le> sessionClock 3 - 0"
  by (auto simp add: sessionClock_def)

lemma upt_3: "[0..<3] = [0, Suc 0, Suc (Suc 0)]"
  by (simp add: numeral_3_eq_3 upt_rec)

lemma init_calibrated:
  "initFaceControl 0 sessionClock sessionDetect initialEngine = Some calibrated"
  using sessionClock_window
  by (simp add: initFaceControl_def calibrateBaseline_def calibrationLoop_window [where n = 3]
      upt_3 sessionDetect_def setBaselines_def mean_def stddev_def calibrated_def
      initialEngine_def)

lemma afterTrigger_eq:
  "afterTrigger =
     calibrated\<lparr> lastTriggerTime := 5000, leftEarHistory := [0.3], rightEarHistory := [0.3],
       yawHistory := [10], openFrames := 1, rearmReady := False, lastFrameTime := 1000,
       headTurnState := triggered_right, lastHeadTurnTrigger := 5000,
       baseline := \<lparr> baseline_leftEar = 0.3, baseline_rightEar = 0.3,
                      baseline_yaw = 0.1 \<rparr> \<rparr>"
  unfolding afterTrigger_def calibrated_def
  by (simp add: engine_defs BASE_THRESHOLDS scenario_defs Let_def cong: let_weak_cong)

lemma run_twoTurns:
  "run headConfig twoTurns calibrated = [(5000, Next, head_right), (6000, Next, head_right)]"
  unfolding calibrated_def
  by (simp add: engine_defs BASE_THRESHOLDS headConfig_def twoTurns_def openFrame_def
      initialEngine_def Let_def cong: let_weak_cong)

subsection \<open>Cooldown\<close>

lemma pushHistories_ltt [simp]: "lastTriggerTime (pushHistories l r y s) = lastTriggerTime s"
  by (simp add: pushHistories_def Let_def)

lemma updateClosedSince_ltt:
  "updateClosedSince e s = (r, s') \<Longrightarrow> lastTriggerTime s' = lastTriggerTime s"
  by (auto simp add: updateClosedSince_def Let_def split: if_splits)

lemma winkMachine_ltt:
  "winkMachine a b c t s = (w, s') \<Longrightarrow> lastTriggerTime s' = lastTriggerTime s"
  by (auto simp add: winkMachine_def Let_def split: if_splits)

lemma blinkDetect_ltt [simp]: "lastTriggerTime (blinkDetect c t s) = lastTriggerTime s"
  by (simp add: blinkDetect_def Let_def split: option.splits)

lemma headMachine_ltt [simp]: "lastTriggerTime (headMachine cfg y s) = lastTriggerTime s"
  by (simp add: headMachine_def Let_def)

lemma signalStage_Inr:
  assumes "signalStage cfg f s = (Inr ctx, s1)"
  shows "now ctx = dateNow f"
    and "inCooldown ctx = (dateNow f - lastTriggerTime s < cooldownMs cfg)"
    and "lastTriggerTime s1 = lastTriggerTime s"
  using assms
  by (auto simp add: signalStage_def Let_def
      split: if_splits option.splits prod.splits
      dest!: updateClosedSince_ltt winkMachine_ltt)

lemma signalStage_Inl:
  assumes "signalStage cfg f s = (Inl r, s1)"
  shows "lastTriggerTime s1 = lastTriggerTime s"
  using assms
  by (auto simp add: signalStage_def Let_def
      split: if_splits option.splits prod.splits
      dest!: updateClosedSince_ltt winkMachine_ltt)

lemma winkTrigger_ltt:
  "winkTrigger cfg ctx s = (t, s') \<Longrightarrow> lastTriggerTime s' = lastTriggerTime s \<and> rearmReady s' = rearmReady s"
  by (auto simp add: winkTrigger_def Let_def split: if_splits)

lemma winkTrigger_Some:
  "winkTrigger cfg ctx s = (Some t, s') \<Longrightarrow> \<not> inCooldown ctx"
  by (auto simp add: winkTrigger_def Let_def split: if_splits)

lemma headTurnTrigger_ltt:
  "headTurnTrigger cfg ctx s = (t, s') \<Longrightarrow> lastTriggerTime s' = lastTriggerTime s"
  by (auto simp add: headTurnTrigger_def Let_def split: if_splits)

lemma detectTriggers_ltt:
  "detectTriggers cfg ctx s = (t, s') \<Longrightarrow> lastTriggerTime s' = lastTriggerTime s"
  by (auto simp add: detectTriggers_def Let_def split: if_splits prod.splits
      dest!: winkTrigger_ltt headTurnTrigger_ltt)

lemma detectTriggers_Some:
  "detectTriggers cfg ctx s = (Some t, s') \<Longrightarrow> \<not> inCooldown ctx"
  by (auto simp add: detectTriggers_def Let_def split: if_splits prod.splits
      dest!: winkTrigger_Some)

lemma rearm_ltt [simp]: "lastTriggerTime (rearm ctx s) = lastTriggerTime s"
  by (simp add: rearm_def Let_def)

lemma adaptBaseline_ltt [simp]: "lastTriggerTime (adaptBaseline ctx s) = lastTriggerTime s"
  by (simp add: adaptBaseline_def)

lemma signalStage_early:
  "signalStage cfg f s = (Inl (Inr out), s1) \<Longrightarrow> out = RateLimited \<or> out = NoFace"
  by (auto simp add: signalStage_def Let_def split: if_splits option.splits prod.splits)

lemma processFrame_trigger:
  assumes pf: "processFrame cfg f s = (Inr (Completed (Some t)), s')"
  shows "cooldownMs cfg \<le> dateNow f - lastTriggerTime s \<and> lastTriggerTime s' = dateNow f"
proof (cases "signalStage cfg f s")
  case (Pair a s1)
  show ?thesis
  proof (cases a)
    case (Inl e)
    with Pair pf have "signalStage cfg f s = (Inl (Inr (Completed (Some t))), s1)"
      by (simp add: processFrame_def)
    from signalStage_early [OF this] show ?thesis by simp
  next
    case (Inr ctx)
    obtain t' s2 where dt: "detectTriggers cfg ctx s1 = (t', s2)"
      by (cases "detectTriggers cfg ctx s1")
    with Pair Inr pf have t': "t' = Some t"
      and s': "s' = adaptBaseline ctx (rearm ctx (executeTrigger ctx t' s2))"
      by (auto simp add: processFrame_def)
    note st = signalStage_Inr [of cfg f s ctx s1]
    from detectTriggers_Some [of cfg ctx s1 t s2] dt t' st Pair Inr
    have "cooldownMs cfg \<le> dateNow f - lastTriggerTime s" by simp
    moreover have "lastTriggerTime s' = dateNow f"
      using s' t' st(1) Pair Inr by (simp add: executeTrigger_def)
    ultimately show ?thesis by simp
  qed
qed

lemma processFrame_no_trigger:
  assumes pf: "processFrame cfg f s = (r, s')" and nt: "\<forall>t. r \<noteq> Inr (Completed (Some t))"
  shows "lastTriggerTime s' = lastTriggerTime s"
proof (cases "signalStage cfg f s")
  case (Pair a s1)
  show ?thesis
  proof (cases a)
    case (Inl e)
    with Pair pf have "s' = s1" by (simp add: processFrame_def)
    with signalStage_Inl [of cfg f s e s1] Pair Inl show ?thesis by simp
  next
    case (Inr ctx)
    obtain t s2 where dt: "detectTriggers cfg ctx s1 = (t, s2)"
      by (cases "detectTriggers cfg ctx s1")
    with Pair Inr pf have r: "r = Inr (Completed t)"
      and s': "s' = adaptBaseline ctx (rearm ctx (executeTrigger ctx t s2))"
      by (simp_all add: processFrame_def)
    from r nt have "t = None" by (cases t) auto
    with s' have "lastTriggerTime s' = lastTriggerTime s2" by (simp add: executeTrigger_def)
    with detectTriggers_ltt [OF dt] signalStage_Inr(3) [of cfg f s ctx s1] Pair Inr
    show ?thesis by simp
  qed
qed

lemma run_Cons_trigger:
  "processFrame cfg f s = (Inr (Completed (Some (n, g))), s') \<Longrightarrow>
   run cfg (f # fs) s = (dateNow f, n, g) # run cfg fs s'"
  by simp

lemma run_Cons_no_trigger:
  "processFrame cfg f s = (r, s') \<Longrightarrow> \<forall>t. r \<noteq> Inr (Completed (Some t)) \<Longrightarrow>
   run cfg (f # fs) s = run cfg fs s'"
  by (auto split: sum.splits outcome.splits option.splits)

declare run.simps(2) [simp del]

lemma run_after_last_trigger:
  assumes c: "0 \<le> cooldownMs cfg"
  shows "x \<in> set (run cfg fs s) \<Longrightarrow> cooldownMs cfg \<le> fst x - lastTriggerTime s"
proof (induction fs arbitrary: s)
  case Nil
  then show ?case by simp
next
  case (Cons f fs)
  obtain r s' where pf: "processFrame cfg f s = (r, s')" by (cases "processFrame cfg f s")
  show ?case
  proof (cases "\<exists>t. r = Inr (Completed (Some t))")
    case True
    then obtain n g where r: "r = Inr (Completed (Some (n, g)))" by auto
    from pf r have tr: "processFrame cfg f s = (Inr (Completed (Some (n, g))), s')" by simp
    note fire = processFrame_trigger [OF tr]
    from Cons.prems run_Cons_trigger [OF tr]
    have "x = (dateNow f, n, g) \<or> x \<in> set (run cfg fs s')" by auto
    then show ?thesis
    proof
      assume "x = (dateNow f, n, g)"
      with fire show ?thesis by simp
    next
      assume "x \<in> set (run cfg fs s')"
      from Cons.IH [OF this] fire c show ?thesis by simp
    qed
  next
    case False
    then have nt: "\<forall>t. r \<noteq> Inr (Completed (Some t))" by simp
    from Cons.prems run_Cons_no_trigger [OF pf nt] have "x \<in> set (run cfg fs s')" by simp
    from Cons.IH [OF this] processFrame_no_trigger [OF pf nt] show ?thesis by simp
  qed
qed

text \<open>
  \<^bold>\<open>C2.\<close> For every frame sequence, every engine state it starts from and every
  configuration with \<open>sensitivity > 0\<close> and \<open>cooldownMs \<ge> 0\<close> (whatever the bindings), any
  two triggers that the engine emits are at least \<open>cooldownMs\<close> apart: the timestamp of
  the later one minus the timestamp of the earlier one is at least \<open>cooldownMs\<close>.
\<close>

theorem triggers_cooldown_apart:
  assumes sens: "0 < sensitivity cfg" and c: "0 \<le> cooldownMs cfg"
  shows "i < j \<Longrightarrow> j < length (run cfg fs s) \<Longrightarrow>
         cooldownMs cfg \<le> fst (run cfg fs s ! j) - fst (run cfg fs s ! i)"
proof (induction fs arbitrary: s i j)
  case Nil
  then show ?case by simp
next
  case (Cons f fs)
  obtain r s' where pf: "processFrame cfg f s = (r, s')" by (cases "processFrame cfg f s")
  show ?case
  proof (cases "\<exists>t. r = Inr (Completed (Some t))")
    case True
    then obtain n g where r: "r = Inr (Completed (Some (n, g)))" by auto
    from pf r have tr: "processFrame cfg f s = (Inr (Completed (Some (n, g))), s')" by simp
    note eq = run_Cons_trigger [OF tr, of fs]
    note fire = processFrame_trigger [OF tr]
    from Cons.prems eq obtain j' where j: "j = Suc j'" and j'len: "j' < length (run cfg fs s')"
      by (cases j) auto
    show ?thesis
    proof (cases i)
      case 0
      have "run cfg fs s' ! j' \<in> set (run cfg fs s')" using j'len by simp
      from run_after_last_trigger [OF c this] fire show ?thesis
        by (simp add: eq j 0)
    next
      case (Suc i')
      with Cons.prems j have "i' < j'" by simp
      from Cons.IH [OF this j'len] show ?thesis by (simp add: eq j Suc)
    qed
  next
    case False
    then have nt: "\<forall>t. r \<noteq> Inr (Completed (Some t))" by simp
    note eq = run_Cons_no_trigger [OF pf nt, of fs]
    from Cons.prems eq have "j < length (run cfg fs s')" by simp
    from Cons.IH [OF Cons.prems(1) this] show ?thesis by (simp add: eq)
  qed
qed

theorem triggers_cooldown_apart_witness:
  "0 < sensitivity headConfig \<and> 0 \<le> cooldownMs headConfig
   \<and> 1 < length (run headConfig twoTurns calibrated)
   \<and> cooldownMs headConfig
       \<le> fst (run headConfig twoTurns calibrated ! 1) - fst (run headConfig twoTurns calibrated ! 0)"
proof -
  have sens: "0 < sensitivity headConfig" by (simp add: headConfig_def)
  have c: "0 \<le> cooldownMs headConfig" by (simp add: headConfig_def)
  have len: "1 < length (run headConfig twoTurns calibrated)" by (simp add: run_twoTurns)
  from triggers_cooldown_apart [OF sens c _ len, of 0] sens c len show ?thesis by simp
qed

subsection \<open>Priority of the checks\<close>

lemma binding_Some: "binding cfg g = Some (n, g') \<Longrightarrow> g' = g \<and> (if n = Next then triggerNext cfg = g else triggerPrev cfg = g)"
  by (auto simp add: binding_def split: if_splits)

lemma winkTrigger_gesture:
  "winkTrigger cfg ctx s = (Some (n, g), s') \<Longrightarrow> g = wink_left \<or> g = wink_right"
  by (auto simp add: winkTrigger_def Let_def split: if_splits dest: binding_Some)

lemma winkTrigger_None: "winkTrigger cfg ctx s = (None, s') \<Longrightarrow> s' = s"
  by (auto simp add: winkTrigger_def Let_def split: if_splits)

lemma doubleBlinkTrigger_gesture:
  "doubleBlinkTrigger cfg ctx s = Some (n, g) \<Longrightarrow> g = double_blink"
  by (auto simp add: doubleBlinkTrigger_def Let_def split: if_splits option.splits dest: binding_Some)

lemma longBlinkTrigger_gesture:
  "longBlinkTrigger cfg ctx s = Some (n, g) \<Longrightarrow> g = long_blink"
  by (auto simp add: longBlinkTrigger_def split: if_splits dest: binding_Some)

lemma headTurnTrigger_gesture:
  "headTurnTrigger cfg ctx s = (Some (n, g), s') \<Longrightarrow> g = head_left \<or> g = head_right"
  by (auto simp add: headTurnTrigger_def Let_def split: if_splits dest: binding_Some)

lemma detectTriggers_priority:
  assumes "detectTriggers cfg ctx s = (t, s')"
  shows "t = (if fst (winkTrigger cfg ctx s) \<noteq> None then fst (winkTrigger cfg ctx s)
              else if inCooldown ctx \<or> \<not> rearmReady s then None
              else if doubleBlinkTrigger cfg ctx s \<noteq> None then doubleBlinkTrigger cfg ctx s
              else if longBlinkTrigger cfg ctx s \<noteq> None then longBlinkTrigger cfg ctx s
              else fst (headTurnTrigger cfg ctx s))"
proof (cases "winkTrigger cfg ctx s")
  case (Pair w sw)
  show ?thesis
  proof (cases w)
    case None
    with Pair have "sw = s" by (simp add: winkTrigger_None)
    with Pair None assms show ?thesis
      by (cases "doubleBlinkTrigger cfg ctx s"; cases "longBlinkTrigger cfg ctx s";
          cases "headTurnTrigger cfg ctx s")
        (auto simp add: detectTriggers_def Let_def split: if_splits)
  next
    case (Some x)
    with Pair have "detectTriggers cfg ctx s = (Some x, sw)"
      by (simp add: detectTriggers_def)
    with assms have "t = Some x" by simp
    moreover have "fst (winkTrigger cfg ctx s) = Some x" using Pair Some by simp
    ultimately show ?thesis by simp
  qed
qed

lemma processFrame_Completed:
  assumes "processFrame cfg f s = (Inr (Completed t), s')"
  shows "\<exists>ctx s1 s2. signalStage cfg f s = (Inr ctx, s1) \<and> detectTriggers cfg ctx s1 = (t, s2)
           \<and> s' = adaptBaseline ctx (rearm ctx (executeTrigger ctx t s2))"
proof (cases "signalStage cfg f s")
  case (Pair a s1)
  show ?thesis
  proof (cases a)
    case (Inl e)
    with Pair assms have "signalStage cfg f s = (Inl (Inr (Completed t)), s1)"
      by (simp add: processFrame_def)
    from signalStage_early [OF this] show ?thesis by simp
  next
    case (Inr ctx)
    with Pair assms show ?thesis
      by (cases "detectTriggers cfg ctx s1") (auto simp add: processFrame_def)
  qed
qed

lemma run_single_le: "length (run cfg [f] s) \<le> 1"
  by (simp add: run.simps split: prod.splits sum.splits outcome.splits option.splits)

text \<open>
  \<^bold>\<open>C3.\<close> A processed frame emits at most one navigation trigger, and the four
  checks are taken in the order wink, double blink, long blink, head turn: the
  trigger of the frame is the result of the wink check when that check fired;
  otherwise, when the cooldown has elapsed and the engine is rearmed, it is the result
  of the first of the double blink, long blink and head turn checks that fired.
  So a check fires only if no check before it did. Each check yields only gestures of
  its own kind.
\<close>

theorem trigger_priority:
  assumes "processFrame cfg f s = (Inr (Completed t), s')"
  shows "length (run cfg [f] s) \<le> 1 \<and>
         (\<exists>ctx s1. signalStage cfg f s = (Inr ctx, s1) \<and>
            t = (if fst (winkTrigger cfg ctx s1) \<noteq> None then fst (winkTrigger cfg ctx s1)
                 else if inCooldown ctx \<or> \<not> rearmReady s1 then None
                 else if doubleBlinkTrigger cfg ctx s1 \<noteq> None then doubleBlinkTrigger cfg ctx s1
                 else if longBlinkTrigger cfg ctx s1 \<noteq> None then longBlinkTrigger cfg ctx s1
                 else fst (headTurnTrigger cfg ctx s1)) \<and>
            (\<forall>n g. fst (winkTrigger cfg ctx s1) = Some (n, g) \<longrightarrow> g = wink_left \<or> g = wink_right) \<and>
            (\<forall>n g. doubleBlinkTrigger cfg ctx s1 = Some (n, g) \<longrightarrow> g = double_blink) \<and>
            (\<forall>n g. longBlinkTrigger cfg ctx s1 = Some (n, g) \<longrightarrow> g = long_blink) \<and>
            (\<forall>n g. fst (headTurnTrigger cfg ctx s1) = Some (n, g) \<longrightarrow> g = head_left \<or> g = head_right))"
proof -
  from processFrame_Completed [OF assms] obtain ctx s1 s2 where
    st: "signalStage cfg f s = (Inr ctx, s1)" and dt: "detectTriggers cfg ctx s1 = (t, s2)"
    by blast
  have w: "\<forall>n g. fst (winkTrigger cfg ctx s1) = Some (n, g) \<longrightarrow> g = wink_left \<or> g = wink_right"
    using winkTrigger_gesture [of cfg ctx s1] by (cases "winkTrigger cfg ctx s1") auto
  have h: "\<forall>n g. fst (headTurnTrigger cfg ctx s1) = Some (n, g) \<longrightarrow> g = head_left \<or> g = head_right"
    using headTurnTrigger_gesture [of cfg ctx s1] by (cases "headTurnTrigger cfg ctx s1") auto
  from st detectTriggers_priority [OF dt] w h doubleBlinkTrigger_gesture [of cfg ctx s1]
    longBlinkTrigger_gesture [of cfg ctx s1] run_single_le [of cfg f s]
  show ?thesis by blast
qed

theorem trigger_priority_witness:
  "processFrame headConfig (openFrame 1000 5000 10) calibrated
     = (Inr (Completed (Some (Next, head_right))),
        snd (processFrame headConfig (openFrame 1000 5000 10) calibrated))
   \<and> length (run headConfig [openFrame 1000 5000 10] calibrated) \<le> 1
   \<and> (\<exists>ctx s1. signalStage headConfig (openFrame 1000 5000 10) calibrated = (Inr ctx, s1)
         \<and> fst (winkTrigger headConfig ctx s1) = None
         \<and> doubleBlinkTrigger headConfig ctx s1 = None
         \<and> longBlinkTrigger headConfig ctx s1 = None
         \<and> fst (headTurnTrigger headConfig ctx s1) = Some (Next, head_right))"
proof -
  have "fst (processFrame headConfig (openFrame 1000 5000 10) calibrated)
          = Inr (Completed (Some (Next, head_right)))"
    unfolding calibrated_def
    by (simp add: engine_defs BASE_THRESHOLDS headConfig_def openFrame_def initialEngine_def
        Let_def cong: let_weak_cong)
  then have pf: "processFrame headConfig (openFrame 1000 5000 10) calibrated
     = (Inr (Completed (Some (Next, head_right))),
        snd (processFrame headConfig (openFrame 1000 5000 10) calibrated))"
    by (simp add: prod_eq_iff)
  from trigger_priority [OF pf] obtain ctx s1 where
    st: "signalStage headConfig (openFrame 1000 5000 10) calibrated = (Inr ctx, s1)" and
    t: "Some (Next, head_right) =
          (if fst (winkTrigger headConfig ctx s1) \<noteq> None then fst (winkTrigger headConfig ctx s1)
           else if inCooldown ctx \<or> \<not> rearmReady s1 then None
           else if doubleBlinkTrigger headConfig ctx s1 \<noteq> None
                then doubleBlinkTrigger headConfig ctx s1
           else if longBlinkTrigger headConfig ctx s1 \<noteq> None
                then longBlinkTrigger headConfig ctx s1
           else fst (headTurnTrigger headConfig ctx s1))" and
    w: "\<forall>n g. fst (winkTrigger headConfig ctx s1) = Some (n, g)
                 \<longrightarrow> g = wink_left \<or> g = wink_right" and
    d: "\<forall>n g. doubleBlinkTrigger headConfig ctx s1 = Some (n, g) \<longrightarrow> g = double_blink" and
    l: "\<forall>n g. longBlinkTrigger headConfig ctx s1 = Some (n, g) \<longrightarrow> g = long_blink"
    by blast
  from t w have w': "fst (winkTrigger headConfig ctx s1) = None"
    by (cases "fst (winkTrigger headConfig ctx s1)") (auto split: if_splits)
  from t d w' have d': "doubleBlinkTrigger headConfig ctx s1 = None"
    by (cases "doubleBlinkTrigger headConfig ctx s1") (auto split: if_splits)
  from t l w' d' have l': "longBlinkTrigger headConfig ctx s1 = None"
    by (cases "longBlinkTrigger headConfig ctx s1") (auto split: if_splits)
  from t w' d' l' have "fst (headTurnTrigger headConfig ctx s1) = Some (Next, head_right)"
    by (auto split: if_splits)
  with pf st w' d' l' run_single_le show ?thesis by blast
qed

subsection \<open>An engine that has never recorded a closed eye\<close>

lemma pushHistories_noClosure [simp]:
  "noClosureRecorded (pushHistories l r y s) = noClosureRecorded s"
  by (simp add: pushHistories_def noClosureRecorded_def Let_def)

lemma lastFrameTime_noClosure [simp]:
  "noClosureRecorded (s\<lparr> lastFrameTime := p \<rparr>) = noClosureRecorded s"
  by (simp add: noClosureRecorded_def)

lemma updateClosedSince_noClosure:
  assumes "noClosureRecorded s" and "updateClosedSince e s = (r, s')"
  shows "noClosureRecorded s'" and "r = None \<Longrightarrow> \<not> leftClosed e \<and> \<not> rightClosed e"
  using assms
  by (auto simp add: updateClosedSince_def noClosureRecorded_def Let_def split: if_splits)

lemma winkMachine_noClosure:
  assumes "noClosureRecorded s"
  shows "winkMachine False False bc t s = (None, s)"
  using assms by (simp add: winkMachine_def noClosureRecorded_def Let_def)

lemma blinkDetect_noClosure:
  assumes "noClosureRecorded s"
  shows "noClosureRecorded (blinkDetect False t s)"
  using assms by (simp add: blinkDetect_def noClosureRecorded_def Let_def)

lemma headMachine_noClosure [simp]:
  "noClosureRecorded (headMachine cfg y s) = noClosureRecorded s"
  by (simp add: headMachine_def noClosureRecorded_def Let_def)

lemma bothClosed_open: "\<not> leftClosed e \<Longrightarrow> bothClosed e s = False"
  by (simp add: bothClosed_def)

lemma signalStage_noClosure:
  assumes inv: "noClosureRecorded s" and st: "signalStage cfg f s = (a, s1)"
  shows "noClosureRecorded s1" and "\<And>ctx. a = Inr ctx \<Longrightarrow> winkTriggered ctx = None"
proof -
  show "noClosureRecorded s1"
  proof (cases "perfNow f - lastFrameTime s < 1000 / targetFps")
    case True
    with st inv show ?thesis by (simp add: signalStage_def)
  next
    case rate: False
    show ?thesis
    proof (cases "face f")
      case None
      with rate st inv show ?thesis by (auto simp add: signalStage_def Let_def)
    next
      case (Some sig)
      obtain l r y where sig: "sig = (l, r, y)" by (cases sig)
      define s0 where "s0 = pushHistories l r y (s\<lparr> lastFrameTime := perfNow f \<rparr>)"
      define e where "e = classifyEyes cfg s0 (median (leftEarHistory s0)) (median (rightEarHistory s0))"
      have inv0: "noClosureRecorded s0" using inv by (simp add: s0_def)
      obtain r2 s2 where u: "updateClosedSince e s0 = (r2, s2)" by (cases "updateClosedSince e s0")
      note uc = updateClosedSince_noClosure [OF inv0 u]
      show ?thesis
      proof (cases r2)
        case None
        with uc have op: "\<not> leftClosed e" "\<not> rightClosed e" by simp_all
        from st rate Some sig u None op uc(1) show ?thesis
          by (auto simp add: signalStage_def Let_def s0_def [symmetric] e_def [symmetric]
              bothClosed_open winkMachine_noClosure blinkDetect_noClosure)
      next
        case (Some err)
        with st rate \<open>face f = Some sig\<close> sig u uc(1) show ?thesis
          by (auto simp add: signalStage_def Let_def s0_def [symmetric] e_def [symmetric])
      qed
    qed
  qed
next
  fix ctx assume a: "a = Inr ctx"
  show "winkTriggered ctx = None"
  proof (cases "face f")
    case None
    with st a show ?thesis by (auto simp add: signalStage_def Let_def split: if_splits)
  next
    case (Some sig)
    obtain l r y where sig: "sig = (l, r, y)" by (cases sig)
    define s0 where "s0 = pushHistories l r y (s\<lparr> lastFrameTime := perfNow f \<rparr>)"
    define e where "e = classifyEyes cfg s0 (median (leftEarHistory s0)) (median (rightEarHistory s0))"
    have inv0: "noClosureRecorded s0" using inv by (simp add: s0_def)
    obtain r2 s2 where u: "updateClosedSince e s0 = (r2, s2)" by (cases "updateClosedSince e s0")
    note uc = updateClosedSince_noClosure [OF inv0 u]
    from st a Some sig u have r2: "r2 = None"
      by (cases r2) (auto simp add: signalStage_def Let_def s0_def [symmetric] e_def [symmetric] split: if_splits)
    with uc have op: "\<not> leftClosed e" "\<not> rightClosed e" by simp_all
    from st a Some sig u r2 op uc(1) show ?thesis
      by (auto simp add: signalStage_def Let_def s0_def [symmetric] e_def [symmetric]
          bothClosed_open winkMachine_noClosure split: if_splits)
  qed
qed

lemma winkTrigger_no_wink: "winkTriggered ctx = None \<Longrightarrow> winkTrigger cfg ctx s = (None, s)"
  by (simp add: winkTrigger_def)

lemma doubleBlinkTrigger_no_blinks: "blinkHistory s = [] \<Longrightarrow> doubleBlinkTrigger cfg ctx s = None"
  by (simp add: doubleBlinkTrigger_def completedBlinks_def)

lemma longBlinkTrigger_no_blinks: "blinkHistory s = [] \<Longrightarrow> longBlinkTrigger cfg ctx s = None"
  by (simp add: longBlinkTrigger_def longBlinks_def)

lemma headTurnTrigger_noClosure:
  "headTurnTrigger cfg ctx s = (t, s') \<Longrightarrow> noClosureRecorded s' = noClosureRecorded s"
  by (auto simp add: headTurnTrigger_def noClosureRecorded_def Let_def split: if_splits)

lemma detectTriggers_noClosure:
  assumes inv: "noClosureRecorded s" and wt: "winkTriggered ctx = None"
    and dt: "detectTriggers cfg ctx s = (t, s')"
  shows "noClosureRecorded s'"
    and "\<And>n g. t = Some (n, g) \<Longrightarrow> g = head_left \<or> g = head_right"
proof -
  from inv have bh: "blinkHistory s = []" by (simp add: noClosureRecorded_def)
  obtain h sh where h: "headTurnTrigger cfg ctx s = (h, sh)" by (cases "headTurnTrigger cfg ctx s")
  from dt have cases: "(t, s') = (None, s) \<or> (t, s') = (h, sh)"
    by (simp add: detectTriggers_def winkTrigger_no_wink [OF wt]
        doubleBlinkTrigger_no_blinks [OF bh] longBlinkTrigger_no_blinks [OF bh] h
        split: if_splits)
  with inv headTurnTrigger_noClosure [OF h] show "noClosureRecorded s'" by auto
  fix n g assume "t = Some (n, g)"
  with cases headTurnTrigger_gesture [of cfg ctx s n g sh] h
  show "g = head_left \<or> g = head_right" by auto
qed

lemma finish_noClosure:
  "noClosureRecorded s \<Longrightarrow> noClosureRecorded (adaptBaseline ctx (rearm ctx (executeTrigger ctx t s)))"
  by (simp add: adaptBaseline_def rearm_def executeTrigger_def noClosureRecorded_def Let_def)

lemma processFrame_noClosure:
  assumes inv: "noClosureRecorded s" and pf: "processFrame cfg f s = (r, s')"
  shows "noClosureRecorded s'"
    and "\<And>n g. r = Inr (Completed (Some (n, g))) \<Longrightarrow> g = head_left \<or> g = head_right"
proof -
  obtain a s1 where st: "signalStage cfg f s = (a, s1)" by (cases "signalStage cfg f s")
  note ss = signalStage_noClosure [OF inv st]
  show "noClosureRecorded s'"
  proof (cases a)
    case (Inl e)
    with st pf ss(1) show ?thesis by (simp add: processFrame_def)
  next
    case (Inr ctx)
    obtain t s2 where dt: "detectTriggers cfg ctx s1 = (t, s2)"
      by (cases "detectTriggers cfg ctx s1")
    from detectTriggers_noClosure(1) [OF ss(1) ss(2) [OF Inr] dt] st Inr dt pf
    show ?thesis by (auto simp add: processFrame_def finish_noClosure)
  qed
  fix n g assume r: "r = Inr (Completed (Some (n, g)))"
  from processFrame_Completed [of cfg f s "Some (n, g)" s'] pf r obtain ctx s1' s2 where
    st': "signalStage cfg f s = (Inr ctx, s1')" and
    dt: "detectTriggers cfg ctx s1' = (Some (n, g), s2)" by auto
  from st st' have a: "a = Inr ctx" and s1: "s1' = s1" by simp_all
  from detectTriggers_noClosure(2) [OF _ ss(2) [OF a] dt] ss(1) s1
  show "g = head_left \<or> g = head_right" by simp
qed

lemma binding_snd: "binding cfg g = Some x \<Longrightarrow> binding cfg (snd x) = Some x"
  by (auto simp add: binding_def split: if_splits)

lemma detectTriggers_bound:
  assumes "detectTriggers cfg ctx s = (Some x, s')"
  shows "binding cfg (snd x) = Some x"
proof -
  have w: "\<And>y. fst (winkTrigger cfg ctx s) = Some y \<Longrightarrow> binding cfg (snd y) = Some y"
    by (auto simp add: winkTrigger_def Let_def split: if_splits dest: binding_snd)
  have d: "\<And>y. doubleBlinkTrigger cfg ctx s = Some y \<Longrightarrow> binding cfg (snd y) = Some y"
    by (auto simp add: doubleBlinkTrigger_def Let_def split: if_splits option.splits dest: binding_snd)
  have l: "\<And>y. longBlinkTrigger cfg ctx s = Some y \<Longrightarrow> binding cfg (snd y) = Some y"
    by (auto simp add: longBlinkTrigger_def split: if_splits dest: binding_snd)
  have h: "\<And>y. fst (headTurnTrigger cfg ctx s) = Some y \<Longrightarrow> binding cfg (snd y) = Some y"
    by (auto simp add: headTurnTrigger_def Let_def split: if_splits dest: binding_snd)
  from detectTriggers_priority [OF assms] w d l h show ?thesis
    by (auto split: if_splits)
qed

lemma processFrame_bound:
  assumes "processFrame cfg f s = (Inr (Completed (Some (n, g))), s')"
  shows "binding cfg g = Some (n, g)"
  using processFrame_Completed [OF assms] detectTriggers_bound [of cfg _ _ "(n, g)"]
  by auto

lemma run_noClosure:
  assumes "noClosureRecorded s" and "x \<in> set (run cfg fs s)"
  shows "isHeadTrigger x \<and> binding cfg (snd (snd x)) = Some (snd x)"
  using assms
proof (induction fs arbitrary: s)
  case Nil
  then show ?case by simp
next
  case (Cons f fs)
  obtain r s' where pf: "processFrame cfg f s = (r, s')" by (cases "processFrame cfg f s")
  note inv' = processFrame_noClosure(1) [OF Cons.prems(1) pf]
  show ?case
  proof (cases "\<exists>t. r = Inr (Completed (Some t))")
    case True
    then obtain n g where r: "r = Inr (Completed (Some (n, g)))" by auto
    from pf r have tr: "processFrame cfg f s = (Inr (Completed (Some (n, g))), s')" by simp
    from Cons.prems(2) run_Cons_trigger [OF tr]
    have "x = (dateNow f, n, g) \<or> x \<in> set (run cfg fs s')" by auto
    then show ?thesis
    proof
      assume "x = (dateNow f, n, g)"
      with processFrame_noClosure(2) [OF Cons.prems(1) pf r] processFrame_bound [OF tr]
      show ?thesis by (simp add: isHeadTrigger_def)
    next
      assume "x \<in> set (run cfg fs s')"
      from Cons.IH [OF inv' this] show ?thesis .
    qed
  next
    case False
    then have nt: "\<forall>t. r \<noteq> Inr (Completed (Some t))" by simp
    from Cons.prems(2) run_Cons_no_trigger [OF pf nt] have "x \<in> set (run cfg fs s')" by simp
    from Cons.IH [OF inv' this] show ?thesis .
  qed
qed

lemma run_noClosure_unbound:
  assumes inv: "noClosureRecorded s"
    and nx: "triggerNext cfg \<noteq> head_left" "triggerNext cfg \<noteq> head_right"
    and pv: "triggerPrev cfg \<noteq> head_left" "triggerPrev cfg \<noteq> head_right"
  shows "run cfg fs s = []"
proof (rule ccontr)
  assume "run cfg fs s \<noteq> []"
  then obtain x where x: "x \<in> set (run cfg fs s)" by (cases "run cfg fs s") auto
  from run_noClosure [OF inv x] nx pv show False
    by (auto simp add: isHeadTrigger_def binding_def split: if_splits)
qed

lemma calibrated_noClosure: "noClosureRecorded calibrated"
  unfolding calibrated_def by (simp add: noClosureRecorded_def initialEngine_def)

subsection \<open>The rearm gate\<close>

lemma updateClosedSince_rearm:
  "updateClosedSince e s = (r, s') \<Longrightarrow> rearmReady s' = rearmReady s \<and> headTurnState s' = headTurnState s \<and> baseline s' = baseline s \<and> lastHeadTurnTrigger s' = lastHeadTurnTrigger s"
  by (auto simp add: updateClosedSince_def Let_def split: if_splits)

lemma winkMachine_rearm:
  "winkMachine a b c t s = (w, s') \<Longrightarrow> rearmReady s' = rearmReady s \<and> headTurnState s' = headTurnState s \<and> baseline s' = baseline s \<and> lastHeadTurnTrigger s' = lastHeadTurnTrigger s"
  by (auto simp add: winkMachine_def Let_def split: if_splits)


lemma blinkDetect_rearm [simp]:
  "rearmReady (blinkDetect c t s) = rearmReady s"
  "headTurnState (blinkDetect c t s) = headTurnState s"
  "baseline (blinkDetect c t s) = baseline s"
  "lastHeadTurnTrigger (blinkDetect c t s) = lastHeadTurnTrigger s"
  by (simp_all add: blinkDetect_def Let_def split: option.splits)

lemma pushHistories_rearm [simp]:
  "rearmReady (pushHistories l r y s) = rearmReady s"
  "headTurnState (pushHistories l r y s) = headTurnState s"
  "baseline (pushHistories l r y s) = baseline s"
  "lastHeadTurnTrigger (pushHistories l r y s) = lastHeadTurnTrigger s"
  by (simp_all add: pushHistories_def Let_def)

lemma headMachine_rearm [simp]:
  "rearmReady (headMachine cfg y s) = rearmReady s"
  "baseline (headMachine cfg y s) = baseline s"
  "lastHeadTurnTrigger (headMachine cfg y s) = lastHeadTurnTrigger s"
  by (simp_all add: headMachine_def Let_def)

lemma signalStage_rearm:
  assumes "signalStage cfg f s = (a, s1)"
  shows "rearmReady s1 = rearmReady s" and "baseline s1 = baseline s"
    and "lastHeadTurnTrigger s1 = lastHeadTurnTrigger s"
  using assms
  by (auto simp add: signalStage_def Let_def
      split: if_splits option.splits prod.splits
      dest!: updateClosedSince_rearm winkMachine_rearm)


lemma processFrame_fst:
  assumes "signalStage cfg f s = (Inr ctx, s1)"
  shows "fst (processFrame cfg f s) = Inr (Completed (fst (detectTriggers cfg ctx s1)))"
  using assms by (cases "detectTriggers cfg ctx s1") (simp add: processFrame_def)




subsection \<open>Head turns\<close>

lemma updateClosedSince_head:
  "updateClosedSince e s = (r, s') \<Longrightarrow> headTurnState s' = headTurnState s"
  by (simp add: updateClosedSince_rearm)

lemma headMachine_cong:
  "headTurnState s = headTurnState s' \<Longrightarrow> baseline s = baseline s' \<Longrightarrow>
   headTurnState (headMachine cfg y s) = headTurnState (headMachine cfg y s')"
  by (simp add: headMachine_def yawDelta_def Let_def)

lemma signalStage_head_Inl:
  assumes "signalStage cfg f s = (Inl r, s1)"
  shows "headTurnState s1 = headTurnState s"
  using assms
  by (auto simp add: signalStage_def Let_def
      split: if_splits option.splits prod.splits
      dest!: updateClosedSince_rearm winkMachine_rearm)

lemma signalStage_head_Inr:
  assumes "signalStage cfg f s = (Inr ctx, s1)"
  shows "headTurnState s1 = headTurnState (headMachine cfg (smoothYaw ctx) s)"
  using assms
  by (auto simp add: signalStage_def Let_def
      split: if_splits option.splits prod.splits
      dest!: updateClosedSince_rearm winkMachine_rearm
      intro!: headMachine_cong)

lemma headMachine_state:
  "headTurnState (headMachine cfg y s) =
     (if \<bar>yawDelta y s\<bar> < headReturnDeg then center
      else if headTurnThreshold cfg < yawDelta y s \<and> headTurnState s = center then right
      else if \<not> headTurnThreshold cfg < yawDelta y s \<and> yawDelta y s < - headTurnThreshold cfg
              \<and> headTurnState s = center then left
      else headTurnState s)"
  by (simp add: headMachine_def Let_def)

lemma headMachine_armed:
  "\<not> \<bar>yawDelta y s\<bar> < headReturnDeg \<Longrightarrow> armed (headMachine cfg y s) = armed s"
  by (simp add: headMachine_def armed_def Let_def)

lemma winkTrigger_head:
  "winkTrigger cfg ctx s = (t, s') \<Longrightarrow> headTurnState s' = headTurnState s"
  by (auto simp add: winkTrigger_def Let_def split: if_splits)

lemma headTurnTrigger_state:
  assumes "headTurnTrigger cfg ctx s = (t, s')"
  shows "(t = None \<and> s' = s) \<or>
         (\<exists>n. t = Some (n, head_right) \<and> headTurnState s = right \<and> headTurnState s' = triggered_right) \<or>
         (\<exists>n. t = Some (n, head_left) \<and> headTurnState s = left \<and> headTurnState s' = triggered_left)"
  using assms
  by (auto simp add: headTurnTrigger_def Let_def binding_def split: if_splits)

lemma detectTriggers_head:
  assumes dt: "detectTriggers cfg ctx s = (t, s')"
  shows "(headTurnState s' = headTurnState s \<and> (\<forall>n g. t = Some (n, g) \<longrightarrow> g \<noteq> head_left \<and> g \<noteq> head_right)) \<or>
         (\<exists>n. t = Some (n, head_right) \<and> headTurnState s = right \<and> headTurnState s' = triggered_right) \<or>
         (\<exists>n. t = Some (n, head_left) \<and> headTurnState s = left \<and> headTurnState s' = triggered_left)"
proof (cases "winkTrigger cfg ctx s")
  case (Pair w sw)
  note wh = winkTrigger_head [OF Pair]
  show ?thesis
  proof (cases w)
    case (Some x)
    with Pair dt have "t = Some x" "s' = sw" by (simp_all add: detectTriggers_def)
    with wh winkTrigger_gesture [of cfg ctx s "fst x" "snd x" sw] Pair Some show ?thesis by auto
  next
    case None
    with Pair have sw: "sw = s" by (simp add: winkTrigger_None)
    obtain h sh where h: "headTurnTrigger cfg ctx s = (h, sh)" by (cases "headTurnTrigger cfg ctx s")
    from dt Pair None sw h
    have "(t = None \<and> s' = s)
          \<or> (t = doubleBlinkTrigger cfg ctx s \<and> t \<noteq> None \<and> s' = s)
          \<or> (t = longBlinkTrigger cfg ctx s \<and> t \<noteq> None \<and> s' = s)
          \<or> (t = h \<and> s' = sh)"
      by (auto simp add: detectTriggers_def Let_def split: if_splits)
    then show ?thesis
      using headTurnTrigger_state [OF h] doubleBlinkTrigger_gesture [of cfg ctx s]
        longBlinkTrigger_gesture [of cfg ctx s]
      by (elim disjE) auto
  qed
qed

lemma finish_head [simp]:
  "headTurnState (adaptBaseline ctx (rearm ctx (executeTrigger ctx t s))) = headTurnState s"
  by (simp add: adaptBaseline_def rearm_def executeTrigger_def Let_def)

lemma headFired_Completed:
  "headFired (Inr (Completed t)) =
     (case t of None \<Rightarrow> 0
      | Some (n, g) \<Rightarrow> if g = head_left \<or> g = head_right then 1 else 0)"
  by (cases t) auto

lemma head_step:
  assumes pf: "processFrame cfg f s = (r, s')"
  shows "headFired r + armed s' \<le> armed s + (if sawCenter cfg f s then 1 else 0)"
proof (cases "signalStage cfg f s")
  case (Pair a s1)
  show ?thesis
  proof (cases a)
    case (Inl e)
    with Pair pf have "r = e" "s' = s1" by (simp_all add: processFrame_def)
    moreover from Pair Inl signalStage_early [of cfg f s _ s1] have "headFired e = 0"
      by (cases e) auto
    ultimately show ?thesis using signalStage_head_Inl [of cfg f s e s1] Pair Inl
      by (simp add: armed_def)
  next
    case (Inr ctx)
    obtain t s2 where dt: "detectTriggers cfg ctx s1 = (t, s2)"
      by (cases "detectTriggers cfg ctx s1")
    with Pair Inr pf have r: "r = Inr (Completed t)"
      and s': "s' = adaptBaseline ctx (rearm ctx (executeTrigger ctx t s2))"
      by (auto simp add: processFrame_def)
    from Pair Inr have st: "signalStage cfg f s = (Inr ctx, s1)" by simp
    note hs1 = signalStage_head_Inr [OF st]
    have bl: "baseline s1 = baseline s" using signalStage_rearm(2) [OF st] .
    have yd: "yawDelta (smoothYaw ctx) s1 = yawDelta (smoothYaw ctx) s"
      by (simp add: yawDelta_def bl)
    have sc: "sawCenter cfg f s = (\<bar>yawDelta (smoothYaw ctx) s\<bar> < headReturnDeg)"
      by (simp add: sawCenter_def st yd)
    from s' have hs': "headTurnState s' = headTurnState s2" by simp
    show ?thesis
    proof (cases "sawCenter cfg f s")
      case True
      with sc hs1 have c: "headTurnState s1 = center" by (simp add: headMachine_state)
      with detectTriggers_head [OF dt] have "headTurnState s2 = center"
        and "\<forall>n g. t = Some (n, g) \<longrightarrow> g \<noteq> head_left \<and> g \<noteq> head_right" by auto
      with r hs' True show ?thesis
        by (auto simp add: headFired_Completed armed_def split: option.splits)
    next
      case False
      with sc have "armed (headMachine cfg (smoothYaw ctx) s) = armed s"
        by (simp add: headMachine_armed)
      with hs1 have a1: "armed s1 = armed s" by (simp add: armed_def)
      from detectTriggers_head [OF dt] r hs' have "headFired r + armed s' \<le> armed s1"
        by (auto simp add: headFired_Completed armed_def split: option.splits)
      with a1 False show ?thesis by simp
    qed
  qed
qed

lemma head_triggers_bounded:
  "length (filter isHeadTrigger (run cfg fs s)) \<le> armed s + centerCount cfg fs s"
proof (induction fs arbitrary: s)
  case Nil
  then show ?case by simp
next
  case (Cons f fs)
  obtain r s' where pf: "processFrame cfg f s = (r, s')" by (cases "processFrame cfg f s")
  note step = head_step [OF pf]
  note ih = Cons.IH [of s']
  have cc: "centerCount cfg (f # fs) s = (if sawCenter cfg f s then 1 else 0) + centerCount cfg fs s'"
    by (simp add: pf)
  show ?case
  proof (cases "\<exists>t. r = Inr (Completed (Some t))")
    case True
    then obtain n g where r: "r = Inr (Completed (Some (n, g)))" by auto
    from pf r have tr: "processFrame cfg f s = (Inr (Completed (Some (n, g))), s')" by simp
    have "length (filter isHeadTrigger (run cfg (f # fs) s))
            = headFired r + length (filter isHeadTrigger (run cfg fs s'))"
      by (simp add: run_Cons_trigger [OF tr] isHeadTrigger_def r)
    with step ih cc show ?thesis by simp
  next
    case False
    then have nt: "\<forall>t. r \<noteq> Inr (Completed (Some t))" by simp
    have "length (filter isHeadTrigger (run cfg (f # fs) s))
            = length (filter isHeadTrigger (run cfg fs s'))"
      by (simp add: run_Cons_no_trigger [OF pf nt])
    with step ih cc show ?thesis by simp
  qed
qed

lemma head_turn_fires:
  assumes st: "signalStage cfg f s = (Inr ctx, s1)"
    and hs: "headTurnState s1 = right \<and> g = head_right \<and> tr = triggered_right
             \<or> headTurnState s1 = left \<and> g = head_left \<and> tr = triggered_left"
    and cd: "\<not> inCooldown ctx" and rr: "rearmReady s1"
    and hcd: "cooldownMs cfg < now ctx - lastHeadTurnTrigger s1"
    and w: "fst (winkTrigger cfg ctx s1) = None"
    and d: "doubleBlinkTrigger cfg ctx s1 = None"
    and l: "longBlinkTrigger cfg ctx s1 = None"
    and b: "binding cfg g = Some x"
  shows "fst (processFrame cfg f s) = Inr (Completed (Some x))
         \<and> headTurnState (snd (processFrame cfg f s)) = tr"
proof -
  from w have w': "winkTrigger cfg ctx s1 = (None, s1)"
    by (cases "winkTrigger cfg ctx s1") (auto dest: winkTrigger_None)
  obtain n' g' where x: "x = (n', g')" by (cases x)
  from hs hcd b have h: "fst (headTurnTrigger cfg ctx s1) = Some x
      \<and> headTurnState (snd (headTurnTrigger cfg ctx s1)) = tr"
    unfolding x by (auto simp add: headTurnTrigger_def Let_def)
  from w' cd rr d l have "detectTriggers cfg ctx s1 = headTurnTrigger cfg ctx s1"
    by (simp add: detectTriggers_def)
  with h st show ?thesis
    by (cases "headTurnTrigger cfg ctx s1") (simp add: processFrame_def)
qed

subsection \<open>Closed eyes\<close>

text \<open>
  A session starts with no closure recorded and no call changes that: a call on which
  an eye is classified as closed throws instead of recording the closure, so no call
  that completes has seen a closed eye.
\<close>

lemma finalEngine_noClosure:
  "noClosureRecorded s \<Longrightarrow> noClosureRecorded (finalEngine cfg fs s)"
proof (induction fs arbitrary: s)
  case Nil
  then show ?case by simp
next
  case (Cons f fs)
  from processFrame_noClosure(1) [OF Cons.prems, of cfg f] Cons.IH show ?case
    by (cases "processFrame cfg f s") simp
qed

lemma closed_eye_never_completes:
  assumes inv: "noClosureRecorded s" and st: "signalStage cfg f s = (Inr ctx, s1)"
  shows "\<not> leftClosed (ctx_eyes ctx) \<and> \<not> rightClosed (ctx_eyes ctx)"
proof (cases "face f")
  case None
  with st show ?thesis by (auto simp add: signalStage_def Let_def split: if_splits)
next
  case (Some sig)
  obtain l r y where sig: "sig = (l, r, y)" by (cases sig)
  define s0 where "s0 = pushHistories l r y (s\<lparr> lastFrameTime := perfNow f \<rparr>)"
  define e where
    "e = classifyEyes cfg s0 (median (leftEarHistory s0)) (median (rightEarHistory s0))"
  have inv0: "noClosureRecorded s0" using inv by (simp add: s0_def)
  obtain r2 s2 where u: "updateClosedSince e s0 = (r2, s2)" by (cases "updateClosedSince e s0")
  from st Some sig u have r2: "r2 = None" and e: "ctx_eyes ctx = e"
    by (cases r2; auto simp add: signalStage_def Let_def s0_def [symmetric] e_def [symmetric]
        split: if_splits prod.splits)+
  from updateClosedSince_noClosure(2) [OF inv0 u r2] e show ?thesis by simp
qed

text \<open>
  \<^bold>\<open>C1.\<close> The claim is that no steady-state call of \<^verbatim>\<open>processFrame\<close> throws. In the
  calibrated session the first frame with both eyes closed (EAR 0.1, close threshold
  0.18) throws a \<^verbatim>\<open>ReferenceError\<close>: it executes \<^verbatim>\<open>leftClosedSince = now\<close> above the
  declaration of \<^verbatim>\<open>now\<close>. The frame time and the three histories have been updated
  when it throws.
\<close>

theorem processFrame_throws_on_closed_eye:
  "processFrame defaultConfig (eyesFrame 1000 5000 0.1 0.1) calibrated
     = (Inl ReferenceError,
        calibrated\<lparr> lastFrameTime := 1000, leftEarHistory := [0.1],
                     rightEarHistory := [0.1], yawHistory := [0] \<rparr>)"
  unfolding calibrated_def
  by (simp add: engine_defs BASE_THRESHOLDS scenario_defs Let_def cong: let_weak_cong)

text \<open>
  \<^bold>\<open>C4.\<close> The claim is that two short blinks with a gap between 80 ms and
  \<open>doubleBlinkWindowMs\<close>, with \<open>triggerNext = double_blink\<close>, emit exactly one \<open>next\<close>. On
  the frames of \<open>twoBlinks\<close> the engine emits nothing: every frame on which the smoothed
  EAR is below the close threshold throws before a blink is recorded.
\<close>

theorem double_blink_never_fires:
  "outcomes defaultConfig twoBlinks calibrated
     = [Inl ReferenceError, Inl ReferenceError, Inl ReferenceError, Inl ReferenceError,
        Inl ReferenceError, Inr (Completed None), Inr (Completed None),
        Inr (Completed None), Inr (Completed None), Inr (Completed None),
        Inl ReferenceError, Inl ReferenceError, Inl ReferenceError, Inl ReferenceError,
        Inr (Completed None)]
   \<and> run defaultConfig twoBlinks calibrated = []"
proof
  show "outcomes defaultConfig twoBlinks calibrated
     = [Inl ReferenceError, Inl ReferenceError, Inl ReferenceError, Inl ReferenceError,
        Inl ReferenceError, Inr (Completed None), Inr (Completed None),
        Inr (Completed None), Inr (Completed None), Inr (Completed None),
        Inl ReferenceError, Inl ReferenceError, Inl ReferenceError, Inl ReferenceError,
        Inr (Completed None)]"
    unfolding calibrated_def
    by (simp add: engine_defs BASE_THRESHOLDS scenario_defs twoBlinks_def Let_def
        cong: let_weak_cong)
  show "run defaultConfig twoBlinks calibrated = []"
    by (rule run_noClosure_unbound [OF calibrated_noClosure]) (simp_all add: defaultConfig_def)
qed

text \<open>
  \<^bold>\<open>C7.\<close> The claim is that a wink held for a time within \<open>[winkMinMs, winkMaxMs]\<close>,
  with \<open>triggerNext = wink_left\<close>, emits exactly one \<open>next\<close> when it ends. On the frames
  of \<open>oneWink\<close> (right eye closed for 200 ms, left eye open) the engine emits nothing:
  every frame on which the right eye is classified closed throws before the wink state
  machine is reached.
\<close>

theorem wink_never_fires:
  "outcomes winkConfig oneWink calibrated
     = [Inl ReferenceError, Inl ReferenceError, Inl ReferenceError, Inl ReferenceError,
        Inl ReferenceError, Inr (Completed None), Inr (Completed None)]
   \<and> run winkConfig oneWink calibrated = []"
proof
  show "outcomes winkConfig oneWink calibrated
     = [Inl ReferenceError, Inl ReferenceError, Inl ReferenceError, Inl ReferenceError,
        Inl ReferenceError, Inr (Completed None), Inr (Completed None)]"
    unfolding calibrated_def
    by (simp add: engine_defs BASE_THRESHOLDS scenario_defs oneWink_def Let_def
        cong: let_weak_cong)
  show "run winkConfig oneWink calibrated = []"
    by (rule run_noClosure_unbound [OF calibrated_noClosure]) (simp_all add: winkConfig_def)
qed

subsection \<open>Calibration without a face\<close>

lemma fold_addSample_faces:
  "fold addSample (filter faceFound ds) acc = fold addSample ds acc"
proof (induction ds arbitrary: acc)
  case Nil
  then show ?case by simp
next
  case (Cons d ds)
  then show ?case by (cases d) (simp_all add: faceFound_def)
qed

lemma fold_addSample_no_face:
  "\<forall>d \<in> set ds. d = None \<Longrightarrow> fold addSample ds acc = acc"
  by (induction ds) simp_all

text \<open>
  \<^bold>\<open>C5\<close> as claimed: a calibration window without a face leaves the baseline at the
  built-in \<open>leftEar = rightEar = 0.25\<close>, \<open>yaw = 0\<close> and the noise estimate at the built-in
  \<open>0.02, 0.02, 0.02, 0.5\<close>. Take the session \<open>calibrated\<close>, stopped after its first frame
  and started again with no face in front of the camera: the calibration loop returns
  no sample, and the baseline and the noise estimate of the restarted session are
  those that the first session left behind, \<open>0.3, 0.3, 0.1\<close> and
  \<open>0.005, 0.005, 0.005, 0.1\<close>.
\<close>

theorem calibrate_without_face_after_restart:
  "initFaceControl 0 sessionClock sessionDetect initialEngine = Some calibrated
   \<and> calibrationLoop 0 sessionClock (\<lambda>k. None) 0 ([], [], [], []) = Some ([], [], [], [])
   \<and> map_option baseline
         (initFaceControl 0 sessionClock (\<lambda>k. None) (destroyFaceControl afterTrigger))
       = Some \<lparr> baseline_leftEar = 0.3, baseline_rightEar = 0.3, baseline_yaw = 0.1 \<rparr>
   \<and> map_option noise
         (initFaceControl 0 sessionClock (\<lambda>k. None) (destroyFaceControl afterTrigger))
       = Some \<lparr> noise_leftEar = 0.005, noise_rightEar = 0.005, noise_diff = 0.005,
                noise_yaw = 0.1 \<rparr>
   \<and> baseline initialEngine
       = \<lparr> baseline_leftEar = 0.25, baseline_rightEar = 0.25, baseline_yaw = 0 \<rparr>
   \<and> noise initialEngine
       = \<lparr> noise_leftEar = 0.02, noise_rightEar = 0.02, noise_diff = 0.02, noise_yaw = 0.5 \<rparr>"
proof -
  have loop: "\<And>acc. calibrationLoop 0 sessionClock (\<lambda>k. None) 0 acc = Some acc"
    using sessionClock_window
    by (simp add: calibrationLoop_window [where n = 3] upt_3)
  have init: "initFaceControl 0 sessionClock (\<lambda>k. None) (destroyFaceControl afterTrigger)
        = Some ((destroyFaceControl afterTrigger)
                  \<lparr> stream := True, videoElement := True, faceLandmarker := True,
                    isRunning := True \<rparr>)"
    by (simp add: initFaceControl_def calibrateBaseline_def loop setBaselines_def)
  have b: "map_option baseline
         (initFaceControl 0 sessionClock (\<lambda>k. None) (destroyFaceControl afterTrigger))
       = Some \<lparr> baseline_leftEar = 0.3, baseline_rightEar = 0.3, baseline_yaw = 0.1 \<rparr>"
    by (simp only: init)
      (simp add: afterTrigger_eq calibrated_def destroyFaceControl_def initialEngine_def)
  have n: "map_option noise
         (initFaceControl 0 sessionClock (\<lambda>k. None) (destroyFaceControl afterTrigger))
       = Some \<lparr> noise_leftEar = 0.005, noise_rightEar = 0.005, noise_diff = 0.005,
                noise_yaw = 0.1 \<rparr>"
    by (simp only: init)
      (simp add: afterTrigger_eq calibrated_def destroyFaceControl_def initialEngine_def)
  from init_calibrated loop [of "([], [], [], [])"] b n show ?thesis
    by (simp add: initialEngine_def)
qed

text \<open>
  \<^bold>\<open>C5\<close> as amended. Let the clock reach the end of the two-second window at the
  \<open>n\<close>-th test of the loop condition. Then the calibration loop returns, and the samples
  it returns are those of the detections that found a face: a detection without a face
  adds nothing. When none of the \<open>n\<close> detections found a face, \<^verbatim>\<open>calibrateBaseline\<close>
  returns and leaves the engine, its baseline and its noise estimate included, as it
  was before the call. These are the built-in \<open>leftEar = rightEar = 0.25\<close>, \<open>yaw = 0\<close> and
  \<open>0.02, 0.02, 0.02, 0.5\<close> when the call starts from the module's initial state, and the
  values of the previous session otherwise.
\<close>

theorem calibrate_without_face:
  assumes window: "\<forall>j < n. clock j - startTime < 2000"
    and over: "2000 \<le> clock n - startTime"
  shows "calibrationLoop startTime clock detect 0 acc
           = Some (fold addSample (filter faceFound (map detect [0..<n])) acc)
       \<and> ((\<forall>j < n. detect j = None) \<longrightarrow>
            calibrateBaseline startTime clock detect s = Some s
            \<and> map_option baseline (calibrateBaseline startTime clock detect initialEngine)
                = Some \<lparr> baseline_leftEar = 0.25, baseline_rightEar = 0.25, baseline_yaw = 0 \<rparr>
            \<and> map_option noise (calibrateBaseline startTime clock detect initialEngine)
                = Some \<lparr> noise_leftEar = 0.02, noise_rightEar = 0.02, noise_diff = 0.02,
                         noise_yaw = 0.5 \<rparr>)"
proof (intro conjI impI)
  from window have "\<forall>j. 0 \<le> j \<and> j < n \<longrightarrow> clock j - startTime < 2000" by simp
  note loop = calibrationLoop_window [OF this over, of detect]
  show "calibrationLoop startTime clock detect 0 acc
           = Some (fold addSample (filter faceFound (map detect [0..<n])) acc)"
    using loop [of acc] by (simp add: fold_addSample_faces)
  assume none: "\<forall>j < n. detect j = None"
  then have "\<forall>d \<in> set (map detect [0..<n]). d = None" by simp
  with loop have empty: "calibrationLoop startTime clock detect 0 ([], [], [], [])
                           = Some ([], [], [], [])"
    by (simp add: fold_addSample_no_face)
  then have same: "\<And>s'. calibrateBaseline startTime clock detect s' = Some s'"
    by (simp add: calibrateBaseline_def setBaselines_def)
  from same show "calibrateBaseline startTime clock detect s = Some s" .
  from same show "map_option baseline (calibrateBaseline startTime clock detect initialEngine)
                = Some \<lparr> baseline_leftEar = 0.25, baseline_rightEar = 0.25, baseline_yaw = 0 \<rparr>"
    by (simp add: initialEngine_def)
  from same show "map_option noise (calibrateBaseline startTime clock detect initialEngine)
                = Some \<lparr> noise_leftEar = 0.02, noise_rightEar = 0.02, noise_diff = 0.02,
                         noise_yaw = 0.5 \<rparr>"
    by (simp add: initialEngine_def)
qed

theorem calibrate_without_face_witness:
  "2000 \<le> sessionClock 3 - 0
   \<and> calibrationLoop 0 sessionClock sessionDetect 0 ([], [], [], [])
       = Some ([0.3, 0.3], [0.3, 0.3], [0, 0], [0, 0])
   \<and> calibrateBaseline 0 sessionClock (\<lambda>k. None) initialEngine = Some initialEngine
   \<and> map_option baseline (calibrateBaseline 0 sessionClock (\<lambda>k. None) initialEngine)
       = Some \<lparr> baseline_leftEar = 0.25, baseline_rightEar = 0.25, baseline_yaw = 0 \<rparr>"
proof -
  from sessionClock_window
  have w: "\<forall>j < 3. sessionClock j - 0 < 2000"
    and o: "2000 \<le> sessionClock 3 - 0" by simp_all
  from calibrate_without_face [OF w o, of sessionDetect "([], [], [], [])"]
  have "calibrationLoop 0 sessionClock sessionDetect 0 ([], [], [], [])
          = Some ([0.3, 0.3], [0.3, 0.3], [0, 0], [0, 0])"
    by (simp add: upt_3 sessionDetect_def faceFound_def)
  moreover
  from calibrate_without_face [OF w o, of "\<lambda>k. None" _ initialEngine]
  have "calibrateBaseline 0 sessionClock (\<lambda>k. None) initialEngine = Some initialEngine
     \<and> map_option baseline (calibrateBaseline 0 sessionClock (\<lambda>k. None) initialEngine)
         = Some \<lparr> baseline_leftEar = 0.25, baseline_rightEar = 0.25, baseline_yaw = 0 \<rparr>"
    by blast
  ultimately show ?thesis using o by blast
qed

subsection \<open>Degenerate numeric input\<close>

lemma distance_nonneg: "0 \<le> distance a b"
  by (simp add: distance_def)

text \<open>
  \<^bold>\<open>C6\<close> as claimed: every degenerate input, a zero-width eye included, yields a safe
  default such as 0. For an eye whose corners coincide \<^verbatim>\<open>eyeAspectRatio\<close> divides by
  zero and returns \<^verbatim>\<open>Infinity\<close>.
\<close>

theorem eyeAspectRatio_zero_width:
  "distance (p1 degenerateEye) (p4 degenerateEye) = 0
   \<and> eyeAspectRatio degenerateEye = Infinity"
  by (simp add: degenerateEye_def eyeAspectRatio_def distance_def zOr0_def js_div_def)

text \<open>
  \<^bold>\<open>C6\<close> as amended: \<^verbatim>\<open>mean\<close>, \<^verbatim>\<open>stddev\<close>, \<^verbatim>\<open>median\<close> and \<^verbatim>\<open>movingAverage\<close> return 0
  on an empty history; \<^verbatim>\<open>eyeAspectRatio\<close> of an eye of zero width does not raise and
  returns \<^verbatim>\<open>Infinity\<close> when the lids are apart and \<^verbatim>\<open>NaN\<close> when they coincide too.
\<close>

theorem degenerate_inputs:
  "mean [] = 0 \<and> stddev [] = 0 \<and> median [] = 0 \<and> movingAverage [] windowSize = 0
   \<and> (distance (p1 e) (p4 e) = 0 \<longrightarrow>
        eyeAspectRatio e
          = (if 0 < distance (p2 e) (p6 e) + distance (p3 e) (p5 e) then Infinity else NaN))"
  using distance_nonneg [of "p2 e" "p6 e"] distance_nonneg [of "p3 e" "p5 e"]
  by (simp add: mean_def stddev_def median_def movingAverage_def eyeAspectRatio_def js_div_def)

theorem degenerate_inputs_witness:
  "distance (p1 degenerateEye) (p4 degenerateEye) = 0
   \<and> 0 < distance (p2 degenerateEye) (p6 degenerateEye)
         + distance (p3 degenerateEye) (p5 degenerateEye)
   \<and> eyeAspectRatio degenerateEye = Infinity
   \<and> movingAverage [] 3 = 0"
proof -
  have z: "distance (p1 degenerateEye) (p4 degenerateEye) = 0"
    by (simp add: degenerateEye_def distance_def zOr0_def)
  have p: "0 < distance (p2 degenerateEye) (p6 degenerateEye)
             + distance (p3 degenerateEye) (p5 degenerateEye)"
    by (simp add: degenerateEye_def distance_def zOr0_def)
  from degenerate_inputs [of 3 degenerateEye] z p show ?thesis by simp
qed

subsection \<open>Stopping the session\<close>

lemma destroyFaceControl_keeps:
  "leftClosedSince (destroyFaceControl s) = leftClosedSince s
   \<and> rightClosedSince (destroyFaceControl s) = rightClosedSince s
   \<and> blinkState (destroyFaceControl s) = blinkState s
   \<and> openFrames (destroyFaceControl s) = openFrames s
   \<and> rearmReady (destroyFaceControl s) = rearmReady s
   \<and> lastFrameTime (destroyFaceControl s) = lastFrameTime s
   \<and> baseline (destroyFaceControl s) = baseline s
   \<and> noise (destroyFaceControl s) = noise s"
  by (simp add: destroyFaceControl_def)

lemma destroyFaceControl_resets:
  "\<not> isRunning (destroyFaceControl s) \<and> \<not> isPaused (destroyFaceControl s)
   \<and> blinkHistory (destroyFaceControl s) = [] \<and> leftEarHistory (destroyFaceControl s) = []
   \<and> rightEarHistory (destroyFaceControl s) = [] \<and> yawHistory (destroyFaceControl s) = []
   \<and> lastTriggerTime (destroyFaceControl s) = 0 \<and> headTurnState (destroyFaceControl s) = center
   \<and> lastHeadTurnTrigger (destroyFaceControl s) = 0 \<and> winkState (destroyFaceControl s) = none
   \<and> winkStartTime (destroyFaceControl s) = 0 \<and> lastWinkTrigger (destroyFaceControl s) = 0"
  by (simp add: destroyFaceControl_def)

lemma detectLoop_stopped:
  "detectLoop cfg f rafId (destroyFaceControl s) = (None, destroyFaceControl s)"
  by (simp add: detectLoop_def destroyFaceControl_def)

lemma init_restarted:
  "initFaceControl 0 sessionClock sessionDetect (destroyFaceControl afterTrigger)
     = Some restarted"
  using sessionClock_window
  unfolding restarted_def afterTrigger_eq calibrated_def
  by (simp add: initFaceControl_def calibrateBaseline_def calibrationLoop_window [where n = 3]
      upt_3 sessionDetect_def setBaselines_def mean_def stddev_def destroyFaceControl_def
      initialEngine_def)

text \<open>
  \<^bold>\<open>C9.\<close> The claim is that stopping the session resets every piece of mutable engine
  state, so that a restart inherits nothing. \<^verbatim>\<open>destroyFaceControl\<close> leaves
  \<^verbatim>\<open>rearmReady\<close>, \<^verbatim>\<open>openFrames\<close> and \<^verbatim>\<open>lastFrameTime\<close> (and \<^verbatim>\<open>blinkState\<close>,
  \<^verbatim>\<open>leftClosedSince\<close>, \<^verbatim>\<open>rightClosedSince\<close>, the baseline and the noise estimate) as they
  are. A session stopped right after a trigger and started again is not rearmed: the
  head turn that fires on the first frame of a fresh session does not fire on the
  first frame of the restarted one.
\<close>

theorem destroy_keeps_rearm_state:
  "rearmReady afterTrigger = False
   \<and> rearmReady (destroyFaceControl afterTrigger) = False
   \<and> openFrames (destroyFaceControl afterTrigger) = 1
   \<and> lastFrameTime (destroyFaceControl afterTrigger) = 1000
   \<and> baseline_yaw (baseline (destroyFaceControl afterTrigger)) = 0.1
   \<and> initFaceControl 0 sessionClock sessionDetect (destroyFaceControl afterTrigger)
       = Some restarted
   \<and> initFaceControl 0 sessionClock sessionDetect initialEngine = Some calibrated
   \<and> rearmReady restarted = False \<and> rearmReady calibrated = True
   \<and> fst (processFrame headConfig (openFrame 5000 9000 10) restarted) = Inr (Completed None)
   \<and> fst (processFrame headConfig (openFrame 5000 9000 10) calibrated)
       = Inr (Completed (Some (Next, head_right)))"
proof -
  have a: "rearmReady afterTrigger = False
     \<and> rearmReady (destroyFaceControl afterTrigger) = False
     \<and> openFrames (destroyFaceControl afterTrigger) = 1
     \<and> lastFrameTime (destroyFaceControl afterTrigger) = 1000
     \<and> baseline_yaw (baseline (destroyFaceControl afterTrigger)) = 0.1"
    unfolding afterTrigger_eq by (simp add: destroyFaceControl_def)
  have b: "fst (processFrame headConfig (openFrame 5000 9000 10) restarted) = Inr (Completed None)"
    unfolding restarted_def calibrated_def
    by (simp add: engine_defs BASE_THRESHOLDS scenario_defs Let_def cong: let_weak_cong)
  have c: "fst (processFrame headConfig (openFrame 5000 9000 10) calibrated)
       = Inr (Completed (Some (Next, head_right)))"
    unfolding calibrated_def
    by (simp add: engine_defs BASE_THRESHOLDS scenario_defs Let_def cong: let_weak_cong)
  have d: "rearmReady restarted = False \<and> rearmReady calibrated = True"
    unfolding restarted_def calibrated_def by (simp add: initialEngine_def)
  from a b c d init_restarted init_calibrated show ?thesis by simp
qed

subsection \<open>Head turns: firing and firing again\<close>

lemma head_trigger_only_if:
  assumes st: "signalStage cfg f s = (Inr ctx, s1)"
    and t: "fst (processFrame cfg f s) = Inr (Completed (Some (n, g)))"
    and g: "g = head_left \<or> g = head_right"
  shows "\<not> inCooldown ctx \<and> rearmReady s1 \<and> cooldownMs cfg < now ctx - lastHeadTurnTrigger s1
         \<and> (headTurnState s1 = right \<and> g = head_right \<or> headTurnState s1 = left \<and> g = head_left)"
proof -
  obtain t' s2 where dt: "detectTriggers cfg ctx s1 = (t', s2)"
    by (cases "detectTriggers cfg ctx s1")
  with t processFrame_fst [OF st] have t': "t' = Some (n, g)" by simp
  note pr = detectTriggers_priority [OF dt]
  have w: "fst (winkTrigger cfg ctx s1) = None"
  proof (cases "fst (winkTrigger cfg ctx s1)")
    case (Some y)
    with pr t' have "fst (winkTrigger cfg ctx s1) = Some (n, g)" by simp
    with winkTrigger_gesture [of cfg ctx s1 n g] g show ?thesis
      by (cases "winkTrigger cfg ctx s1") auto
  qed simp
  from pr t' w have gate: "\<not> inCooldown ctx" "rearmReady s1" by (auto split: if_splits)
  have d: "doubleBlinkTrigger cfg ctx s1 = None"
  proof (cases "doubleBlinkTrigger cfg ctx s1")
    case (Some y)
    with pr t' w gate have "doubleBlinkTrigger cfg ctx s1 = Some (n, g)" by simp
    with doubleBlinkTrigger_gesture g show ?thesis by blast
  qed simp
  have l: "longBlinkTrigger cfg ctx s1 = None"
  proof (cases "longBlinkTrigger cfg ctx s1")
    case (Some y)
    with pr t' w gate d have "longBlinkTrigger cfg ctx s1 = Some (n, g)" by simp
    with longBlinkTrigger_gesture g show ?thesis by blast
  qed simp
  from pr t' w gate d l have h: "fst (headTurnTrigger cfg ctx s1) = Some (n, g)" by simp
  then have "cooldownMs cfg < now ctx - lastHeadTurnTrigger s1
         \<and> (headTurnState s1 = right \<and> g = head_right \<or> headTurnState s1 = left \<and> g = head_left)"
    by (auto simp add: headTurnTrigger_def Let_def binding_def split: if_splits)
  with gate show ?thesis by simp
qed

text \<open>
  \<^bold>\<open>C8\<close> as claimed: whenever the yaw delta passes the turn threshold, returns to the
  centre band and passes the threshold again, two head turn triggers fire. On
  \<open>quickTurns\<close> the yaw delta is 10 (beyond the threshold 5), falls to \<open>-0.1\<close> (inside the
  centre band of 3), rises to 9.9 for three frames and falls to \<open>-0.1\<close> again, all within
  the cooldown of 900 ms after the first trigger: one trigger fires, not two.
\<close>

theorem quick_second_turn_fires_once:
  "yawDeltas headConfig quickTurns calibrated
     = [Some 10, Some 4.9, Some (97 / 30), Some (- 0.1), Some 9.9, Some 9.9, Some 9.9,
        Some (- 0.1), Some (- 0.1)]
   \<and> headTurnThreshold headConfig = 5 \<and> headReturnDeg = 3
   \<and> run headConfig quickTurns calibrated = [(5000, Next, head_right)]"
  unfolding calibrated_def
  by (simp add: engine_defs BASE_THRESHOLDS scenario_defs quickTurns_def Let_def run.simps
      cong: let_weak_cong)

text \<open>
  \<^bold>\<open>C8\<close> as amended, for a configuration with \<open>sensitivity > 0\<close>. For every frame
  sequence the number of head turn triggers is at
  most the number of frames on which the yaw delta was inside the return-to-centre
  band, plus one if the head turn state was not a triggered one at the start: a turn
  that is held without a return to the centre fires at most once, and a second trigger
  needs a return to the centre in between. On a processed frame the head turn state is
  \<open>center\<close> when the yaw delta is inside the band, becomes \<open>right\<close> or \<open>left\<close> when it is
  \<open>center\<close> and the yaw delta is beyond the turn threshold, and is kept otherwise. A
  head turn trigger fires on that frame if and only if the state is \<open>right\<close> or \<open>left\<close>,
  the gesture is bound, the cooldown has elapsed, more than \<open>cooldownMs\<close> have passed
  since the last head turn trigger, the engine is rearmed and no wink, double blink or
  long blink fired; the state then becomes the triggered one.
\<close>

theorem head_turn_refire:
  assumes sens: "0 < sensitivity cfg" and st: "signalStage cfg f s = (Inr ctx, s1)"
  shows "length (filter isHeadTrigger (run cfg fs s0)) \<le> armed s0 + centerCount cfg fs s0
    \<and> headTurnState s1 =
         (if \<bar>yawDelta (smoothYaw ctx) s\<bar> < headReturnDeg then center
          else if headTurnThreshold cfg < yawDelta (smoothYaw ctx) s \<and> headTurnState s = center
          then right
          else if \<not> headTurnThreshold cfg < yawDelta (smoothYaw ctx) s
                  \<and> yawDelta (smoothYaw ctx) s < - headTurnThreshold cfg
                  \<and> headTurnState s = center
          then left
          else headTurnState s)
    \<and> ((headTurnState s1 = right \<and> g = head_right \<and> tr = triggered_right
          \<or> headTurnState s1 = left \<and> g = head_left \<and> tr = triggered_left)
         \<and> \<not> inCooldown ctx \<and> rearmReady s1
         \<and> cooldownMs cfg < now ctx - lastHeadTurnTrigger s1
         \<and> fst (winkTrigger cfg ctx s1) = None
         \<and> doubleBlinkTrigger cfg ctx s1 = None
         \<and> longBlinkTrigger cfg ctx s1 = None
         \<and> binding cfg g = Some x
        \<longrightarrow> fst (processFrame cfg f s) = Inr (Completed (Some x))
            \<and> headTurnState (snd (processFrame cfg f s)) = tr)
    \<and> (fst (processFrame cfg f s) = Inr (Completed (Some (n, g')))
         \<and> (g' = head_left \<or> g' = head_right)
        \<longrightarrow> \<not> inCooldown ctx \<and> rearmReady s1
            \<and> cooldownMs cfg < now ctx - lastHeadTurnTrigger s1
            \<and> (headTurnState s1 = right \<and> g' = head_right
                \<or> headTurnState s1 = left \<and> g' = head_left))"
proof (intro conjI impI)
  show "length (filter isHeadTrigger (run cfg fs s0)) \<le> armed s0 + centerCount cfg fs s0"
    by (rule head_triggers_bounded)
  show "headTurnState s1 =
         (if \<bar>yawDelta (smoothYaw ctx) s\<bar> < headReturnDeg then center
          else if headTurnThreshold cfg < yawDelta (smoothYaw ctx) s \<and> headTurnState s = center
          then right
          else if \<not> headTurnThreshold cfg < yawDelta (smoothYaw ctx) s
                  \<and> yawDelta (smoothYaw ctx) s < - headTurnThreshold cfg
                  \<and> headTurnState s = center
          then left
          else headTurnState s)"
    using signalStage_head_Inr [OF st] by (simp only: headMachine_state)
next
  assume a: "(headTurnState s1 = right \<and> g = head_right \<and> tr = triggered_right
          \<or> headTurnState s1 = left \<and> g = head_left \<and> tr = triggered_left)
         \<and> \<not> inCooldown ctx \<and> rearmReady s1
         \<and> cooldownMs cfg < now ctx - lastHeadTurnTrigger s1
         \<and> fst (winkTrigger cfg ctx s1) = None
         \<and> doubleBlinkTrigger cfg ctx s1 = None
         \<and> longBlinkTrigger cfg ctx s1 = None
         \<and> binding cfg g = Some x"
  then have h1: "headTurnState s1 = right \<and> g = head_right \<and> tr = triggered_right
          \<or> headTurnState s1 = left \<and> g = head_left \<and> tr = triggered_left"
    and h2: "\<not> inCooldown ctx" and h3: "rearmReady s1"
    and h4: "cooldownMs cfg < now ctx - lastHeadTurnTrigger s1"
    and h5: "fst (winkTrigger cfg ctx s1) = None"
    and h6: "doubleBlinkTrigger cfg ctx s1 = None"
    and h7: "longBlinkTrigger cfg ctx s1 = None"
    and h8: "binding cfg g = Some x" by simp_all
  from head_turn_fires [OF st h1 h2 h3 h4 h5 h6 h7 h8]
  show "fst (processFrame cfg f s) = Inr (Completed (Some x))"
    and "headTurnState (snd (processFrame cfg f s)) = tr" by simp_all
next
  assume a: "fst (processFrame cfg f s) = Inr (Completed (Some (n, g')))
         \<and> (g' = head_left \<or> g' = head_right)"
  then have k1: "fst (processFrame cfg f s) = Inr (Completed (Some (n, g')))"
    and k2: "g' = head_left \<or> g' = head_right" by simp_all
  from head_trigger_only_if [OF st k1 k2]
  show "\<not> inCooldown ctx" and "rearmReady s1"
    and "cooldownMs cfg < now ctx - lastHeadTurnTrigger s1"
    and "headTurnState s1 = right \<and> g' = head_right \<or> headTurnState s1 = left \<and> g' = head_left"
    by simp_all
qed

lemma afterFirstTurn_eq:
  "afterFirstTurn =
     calibrated\<lparr> lastTriggerTime := 5000,
       leftEarHistory := [0.3, 0.3, 0.3, 0.3],
       rightEarHistory := [0.3, 0.3, 0.3, 0.3],
       yawHistory := [10, 0, 0, 0], openFrames := 3, lastFrameTime := 1120,
       lastHeadTurnTrigger := 5000,
       baseline := \<lparr> baseline_leftEar = 0.3, baseline_rightEar = 0.3,
                      baseline_yaw = 0.1 \<rparr> \<rparr>"
  unfolding afterFirstTurn_def calibrated_def
  by (simp add: engine_defs BASE_THRESHOLDS scenario_defs firstTurn_def Let_def
      cong: let_weak_cong)

lemma turn_signal:
  "signalStage headConfig (openFrame 2000 6000 30) afterFirstTurn = (Inr turnLocals, turnState)"
  unfolding afterFirstTurn_eq turnState_def turnLocals_def calibrated_def
  by (simp add: engine_defs BASE_THRESHOLDS scenario_defs Let_def cong: let_weak_cong)

lemma centerCount_twoTurns: "centerCount headConfig twoTurns calibrated = 1"
  unfolding calibrated_def
  by (simp add: sawCenter_def engine_defs BASE_THRESHOLDS scenario_defs twoTurns_def Let_def
      cong: let_weak_cong)

theorem head_turn_refire_witness:
  "0 < sensitivity headConfig
   \<and> signalStage headConfig (openFrame 2000 6000 30) afterFirstTurn = (Inr turnLocals, turnState)
   \<and> headTurnState turnState = right
   \<and> \<not> inCooldown turnLocals \<and> rearmReady turnState
   \<and> cooldownMs headConfig < now turnLocals - lastHeadTurnTrigger turnState
   \<and> fst (winkTrigger headConfig turnLocals turnState) = None
   \<and> doubleBlinkTrigger headConfig turnLocals turnState = None
   \<and> longBlinkTrigger headConfig turnLocals turnState = None
   \<and> binding headConfig head_right = Some (Next, head_right)
   \<and> fst (processFrame headConfig (openFrame 2000 6000 30) afterFirstTurn)
       = Inr (Completed (Some (Next, head_right)))
   \<and> headTurnState (snd (processFrame headConfig (openFrame 2000 6000 30) afterFirstTurn))
       = triggered_right
   \<and> length (filter isHeadTrigger (run headConfig twoTurns calibrated))
       \<le> armed calibrated + centerCount headConfig twoTurns calibrated
   \<and> length (filter isHeadTrigger (run headConfig twoTurns calibrated)) = 2
   \<and> armed calibrated = 1 \<and> centerCount headConfig twoTurns calibrated = 1"
proof -
  have hs: "headTurnState turnState = right" by (simp add: turnState_def)
  have cd: "\<not> inCooldown turnLocals" by (simp add: turnLocals_def)
  have rr: "rearmReady turnState"
    unfolding turnState_def calibrated_def by (simp add: initialEngine_def)
  have hcd: "cooldownMs headConfig < now turnLocals - lastHeadTurnTrigger turnState"
    by (simp add: turnState_def turnLocals_def headConfig_def)
  have w: "fst (winkTrigger headConfig turnLocals turnState) = None"
    by (simp add: winkTrigger_def turnLocals_def)
  have bh: "blinkHistory turnState = []"
    unfolding turnState_def calibrated_def by (simp add: initialEngine_def)
  note d = doubleBlinkTrigger_no_blinks [OF bh, of headConfig turnLocals]
  note l = longBlinkTrigger_no_blinks [OF bh, of headConfig turnLocals]
  have b: "binding headConfig head_right = Some (Next, head_right)"
    by (simp add: binding_def headConfig_def)
  have ar: "armed calibrated = 1"
    unfolding calibrated_def by (simp add: armed_def initialEngine_def)
  have two: "length (filter isHeadTrigger (run headConfig twoTurns calibrated)) = 2"
    by (simp add: run_twoTurns isHeadTrigger_def)
  have sens: "0 < sensitivity headConfig" by (simp add: headConfig_def)
  note inst = head_turn_refire [OF sens turn_signal, of twoTurns calibrated head_right
      triggered_right "(Next, head_right)"]
  from inst hs cd rr hcd w d l b
  have fire: "fst (processFrame headConfig (openFrame 2000 6000 30) afterFirstTurn)
                = Inr (Completed (Some (Next, head_right)))
     \<and> headTurnState (snd (processFrame headConfig (openFrame 2000 6000 30) afterFirstTurn))
                = triggered_right" by blast
  from inst have bound: "length (filter isHeadTrigger (run headConfig twoTurns calibrated))
       \<le> armed calibrated + centerCount headConfig twoTurns calibrated" by blast
  from sens turn_signal hs cd rr hcd w d l b fire bound two ar centerCount_twoTurns
  show ?thesis by blast
qed

end
